theory Spec2Isabelle
  imports Complex_Main
begin

section \<open>Python values used by \<^verbatim>\<open>audio_to_text/transcribe_audio.py\<close>\<close>

text \<open>
  A Python \<^verbatim>\<open>str\<close> is a sequence of Unicode code points; it is modelled as a list of
  natural numbers, so that characters outside Latin-1 exist (the output encoder drops
  them) and the whitespace removed by \<^verbatim>\<open>str.strip()\<close> is the set Python uses.
  The timestamps of segments, which the code only adds, are idealised as reals. The times
  of the turns, which the code multiplies by 1000 and truncates to whole milliseconds,
  are doubles, with the rounding of the product (see below).
\<close>

type_synonym pystr = "nat list"

definition str :: "string \<Rightarrow> pystr" where
  "str s = map of_char s"

definition isspace :: "nat \<Rightarrow> bool" where
  "isspace c \<longleftrightarrow>
     (9 \<le> c \<and> c \<le> 13) \<or> (28 \<le> c \<and> c \<le> 32) \<or> c = 133 \<or> c = 160 \<or> c = 5760 \<or>
     (8192 \<le> c \<and> c \<le> 8202) \<or> c = 8232 \<or> c = 8233 \<or> c = 8239 \<or> c = 8287 \<or> c = 12288"

text \<open>\<^verbatim>\<open>s.strip()\<close>: leading and trailing whitespace removed.\<close>

definition strip :: "pystr \<Rightarrow> pystr" where
  "strip s = rev (dropWhile isspace (rev (dropWhile isspace s)))"

text \<open>\<^verbatim>\<open>" ".join(ts)\<close>, the space-joined concatenation the specification speaks of.\<close>

fun space_joined :: "pystr list \<Rightarrow> pystr" where
  "space_joined [] = []"
| "space_joined [t] = t"
| "space_joined (t # u # ts) = t @ [32] @ space_joined (u # ts)"

subsection \<open>Segments, the object store and transcription dictionaries\<close>

text \<open>
  A segment of a transcription is a dictionary; the code reads its keys \<^verbatim>\<open>start\<close> and
  \<^verbatim>\<open>end\<close> with \<^verbatim>\<open>.get(key, 0)\<close>, so either may be absent. Segment dictionaries are
  mutable objects: they live in a store, a list of cells addressed by position, and a
  transcription refers to its segments by address.
\<close>

record segment =
  seg_start :: "real option"
  seg_end :: "real option"
  seg_text :: pystr

type_synonym addr = nat
type_synonym store = "segment list"

text \<open>
  The dictionary of a transcription (\<^verbatim>\<open>respuesta.dict()\<close>, and the combined result): the
  keys \<^verbatim>\<open>text\<close>, \<^verbatim>\<open>language\<close> and \<^verbatim>\<open>segments\<close>, each of which may be absent, and the
  names of any further keys. The segments are values in what the service answers and
  addresses in a dictionary of the program.
\<close>

record 's transcription =
  d_text :: "pystr option"
  d_language :: "pystr option"
  d_segments :: "'s list option"
  d_extra :: "pystr list"

text \<open>Truth value of a dictionary: it has at least one key.\<close>

definition truthy :: "'s transcription \<Rightarrow> bool" where
  "truthy d \<longleftrightarrow> d_text d \<noteq> None \<or> d_language d \<noteq> None \<or> d_segments d \<noteq> None \<or> d_extra d \<noteq> []"

text \<open>\<^verbatim>\<open>d.get('text', '')\<close>, \<^verbatim>\<open>seg.get('start', 0)\<close> and \<^verbatim>\<open>seg.get('end', 0)\<close>.\<close>

definition get_text :: "'s transcription \<Rightarrow> pystr" where
  "get_text d = (case d_text d of None \<Rightarrow> [] | Some t \<Rightarrow> t)"

definition get_start :: "segment \<Rightarrow> real" where
  "get_start s = (case seg_start s of None \<Rightarrow> 0 | Some v \<Rightarrow> v)"

definition get_end :: "segment \<Rightarrow> real" where
  "get_end s = (case seg_end s of None \<Rightarrow> 0 | Some v \<Rightarrow> v)"

section \<open>The transcription primitive\<close>

text \<open>
  \<^verbatim>\<open>_transcribir_chunk_whisper\<close> sends one WAV file to the service. What the service does
  is an input of the model: \<open>None\<close> when the call raises (the function then returns
  \<^verbatim>\<open>None\<close>), otherwise the answer, which \<^verbatim>\<open>respuesta.dict()\<close> turns into a dictionary whose
  segments are fresh objects of the store.
\<close>

definition to_dict :: "store \<Rightarrow> segment transcription \<Rightarrow> store \<times> addr transcription" where
  "to_dict h r =
     (case d_segments r of
        None \<Rightarrow> (h, \<lparr>d_text = d_text r, d_language = d_language r, d_segments = None,
                      d_extra = d_extra r\<rparr>)
      | Some segs \<Rightarrow>
          (h @ segs,
           \<lparr>d_text = d_text r, d_language = d_language r,
            d_segments = Some [length h ..< length h + length segs], d_extra = d_extra r\<rparr>))"

definition transcribir_chunk_whisper ::
  "store \<Rightarrow> segment transcription option \<Rightarrow> store \<times> addr transcription option" where
  "transcribir_chunk_whisper h respuesta =
     (case respuesta of
        None \<Rightarrow> (h, None)
      | Some r \<Rightarrow> (case to_dict h r of (h', d) \<Rightarrow> (h', Some d)))"

section \<open>The size-constrained transcriber\<close>

definition WHISPER_API_LIMIT_BYTES :: nat where
  "WHISPER_API_LIMIT_BYTES = 24 * 1024 * 1024"

text \<open>
  What \<^verbatim>\<open>_transcribir_wav_con_chunking_opcional\<close> observes of the WAV file it is given:
  its size, whether \<^verbatim>\<open>AudioSegment.from_wav\<close> loads it (and then the length of the audio
  in milliseconds), what the service answers when the file itself is sent, whether the
  export of chunk \<open>i\<close> succeeds, and what the service answers for chunk \<open>i\<close>.
\<close>

record wav_file =
  st_size :: nat
  from_wav :: "nat option"
  api_whole :: "segment transcription option"
  export_chunk :: "nat \<Rightarrow> bool"
  api_chunk :: "nat \<Rightarrow> segment transcription option"

text \<open>
  Two logs record what a run does, besides its result: the calls of the primitive, each
  with the file sent and the value returned, and the slices \<^verbatim>\<open>audio[start_ms:end_ms]\<close>
  taken.
\<close>

datatype request = Whole_wav | Chunk_wav nat nat nat

type_synonym call = "request \<times> addr transcription option"

record chunk_state =
  all_text :: pystr
  all_segments :: "addr list"
  last_successful_lang :: pystr
  objs :: store
  calls :: "call list"
  slices :: "(nat \<times> nat) list"

text \<open>
  The body of \<^verbatim>\<open>for seg in chunk_result['segments']\<close>: \<^verbatim>\<open>seg.copy()\<close> allocates a new
  object with the entries of \<open>seg\<close>; its \<^verbatim>\<open>start\<close> and \<^verbatim>\<open>end\<close> are then assigned, each read
  from \<open>seg\<close>; its address is appended to \<^verbatim>\<open>all_segments\<close>.
\<close>

definition adjust_segment :: "real \<Rightarrow> store \<times> addr list \<Rightarrow> addr \<Rightarrow> store \<times> addr list" where
  "adjust_segment chunk_start_time_s ha seg =
     (case ha of (h, segs) \<Rightarrow>
        let adjusted_seg = length h;
            h1 = h @ [h ! seg];
            h2 = h1[adjusted_seg :=
                     (h1 ! adjusted_seg)\<lparr>seg_start := Some (chunk_start_time_s + get_start (h1 ! seg))\<rparr>];
            h3 = h2[adjusted_seg :=
                     (h2 ! adjusted_seg)\<lparr>seg_end := Some (chunk_start_time_s + get_end (h2 ! seg))\<rparr>]
        in (h3, segs @ [adjusted_seg]))"

text \<open>The body of \<^verbatim>\<open>for i in range(num_chunks)\<close>.\<close>

definition chunk_step ::
  "wav_file \<Rightarrow> nat \<Rightarrow> nat \<Rightarrow> nat \<Rightarrow> chunk_state \<Rightarrow> nat \<Rightarrow> chunk_state" where
  "chunk_step w num_chunks chunk_duration_ms total_duration_ms st i =
     (let start_ms = i * chunk_duration_ms;
          end_ms = (if i < num_chunks - 1 then (i + 1) * chunk_duration_ms else total_duration_ms)
      in if start_ms \<ge> end_ms then st
         else
           let st1 = st\<lparr>slices := slices st @ [(start_ms, end_ms)]\<rparr>
           in if \<not> export_chunk w i then st1
              else
                (case transcribir_chunk_whisper (objs st1) (api_chunk w i) of
                   (h, chunk_result) \<Rightarrow>
                     let st2 = st1\<lparr>objs := h,
                                    calls := calls st1 @ [(Chunk_wav i start_ms end_ms, chunk_result)]\<rparr>
                     in (case chunk_result of
                           None \<Rightarrow> st2
                         | Some d \<Rightarrow>
                             if \<not> truthy d then st2
                             else
                               let st3 = st2\<lparr>all_text := all_text st2 @ get_text d @ [32],
                                              last_successful_lang :=
                                                (case d_language d of
                                                   None \<Rightarrow> last_successful_lang st2
                                                 | Some l \<Rightarrow> l)\<rparr>;
                                   chunk_start_time_s = real start_ms / 1000
                               in (case d_segments d of
                                     None \<Rightarrow> st3
                                   | Some segs \<Rightarrow>
                                       (case foldl (adjust_segment chunk_start_time_s)
                                               (objs st3, all_segments st3) segs of
                                          (h', segs') \<Rightarrow>
                                            st3\<lparr>objs := h', all_segments := segs'\<rparr>)))))"

text \<open>What a run of the transcriber returns and leaves behind.\<close>

record run =
  result :: "addr transcription option"
  run_objs :: store
  run_calls :: "call list"
  run_slices :: "(nat \<times> nat) list"

definition initial_state :: chunk_state where
  "initial_state =
     \<lparr>all_text = [], all_segments = [], last_successful_lang = str ''unknown'',
      objs = [], calls = [], slices = []\<rparr>"

definition num_chunks_of :: "nat \<Rightarrow> nat" where
  "num_chunks_of file_size =
     (if file_size > WHISPER_API_LIMIT_BYTES
      then nat \<lceil>real file_size / real WHISPER_API_LIMIT_BYTES\<rceil> else 1)"

definition chunk_duration_of :: "nat \<Rightarrow> nat \<Rightarrow> nat" where
  "chunk_duration_of total_duration_ms num_chunks =
     (let chunk_duration_ms = nat \<lfloor>real total_duration_ms / real num_chunks\<rfloor>
      in if chunk_duration_ms = 0 \<and> num_chunks = 1 then total_duration_ms else chunk_duration_ms)"

definition transcribir_wav_con_chunking_opcional :: "wav_file \<Rightarrow> bool \<Rightarrow> run" where
  "transcribir_wav_con_chunking_opcional w forzar_chunking =
     (let file_size = st_size w
      in if \<not> forzar_chunking \<and> file_size \<le> WHISPER_API_LIMIT_BYTES then
           (case transcribir_chunk_whisper [] (api_whole w) of
              (h, r) \<Rightarrow>
                \<lparr>result = r, run_objs = h, run_calls = [(Whole_wav, r)], run_slices = []\<rparr>)
         else
           (case from_wav w of
              None \<Rightarrow> \<lparr>result = None, run_objs = [], run_calls = [], run_slices = []\<rparr>
            | Some total_duration_ms \<Rightarrow>
                let num_chunks = num_chunks_of file_size;
                    chunk_duration_ms = chunk_duration_of total_duration_ms num_chunks
                in if chunk_duration_ms \<le> 0 then
                     \<lparr>result = None, run_objs = [], run_calls = [], run_slices = []\<rparr>
                   else
                     let st = foldl (chunk_step w num_chunks chunk_duration_ms total_duration_ms)
                                initial_state [0 ..< num_chunks]
                     in if all_text st = [] then
                          \<lparr>result = None, run_objs = objs st, run_calls = calls st,
                           run_slices = slices st\<rparr>
                        else
                          \<lparr>result = Some \<lparr>d_text = Some (strip (all_text st)),
                                           d_language = Some (last_successful_lang st),
                                           d_segments = Some (all_segments st), d_extra = []\<rparr>,
                           run_objs = objs st, run_calls = calls st, run_slices = slices st\<rparr>))"

section \<open>Output files\<close>

text \<open>
  A path is a directory (its components) and a final component, the name. The three
  functions below are those of Python's \<^verbatim>\<open>pathlib\<close>, on names: \<^verbatim>\<open>name.rfind('.')\<close>, the
  suffix (the part of the name from its last dot, when that dot is neither the first nor
  the last character), the stem (the name without its suffix) and \<^verbatim>\<open>with_suffix\<close>, which
  replaces the suffix of the name, or appends the new one when the name has none. (On an
  empty name \<^verbatim>\<open>with_suffix\<close> raises; the names here are stems of directory entries, never
  empty. The suffix \<^verbatim>\<open>.diarized.txt\<close> the code passes is a valid one.)
\<close>

datatype path = Path (path_parent: "pystr list") (path_name: pystr)

fun rfind :: "nat \<Rightarrow> pystr \<Rightarrow> nat option" where
  "rfind c [] = None"
| "rfind c (x # xs) =
     (case rfind c xs of
        Some i \<Rightarrow> Some (Suc i)
      | None \<Rightarrow> if x = c then Some 0 else None)"

definition path_suffix :: "pystr \<Rightarrow> pystr" where
  "path_suffix name =
     (case rfind 46 name of
        None \<Rightarrow> []
      | Some i \<Rightarrow> if 0 < i \<and> i < length name - 1 then drop i name else [])"

definition path_stem :: "pystr \<Rightarrow> pystr" where
  "path_stem name =
     (case rfind 46 name of
        None \<Rightarrow> name
      | Some i \<Rightarrow> if 0 < i \<and> i < length name - 1 then take i name else name)"

definition with_suffix :: "path \<Rightarrow> pystr \<Rightarrow> path" where
  "with_suffix p suffix =
     (let name = path_name p; old_suffix = path_suffix name
      in if old_suffix = [] then Path (path_parent p) (name @ suffix)
         else Path (path_parent p) (take (length name - length old_suffix) name @ suffix))"

text \<open>\<^verbatim>\<open>dir / name\<close>, for a name without separators.\<close>

definition joinpath :: "pystr list \<Rightarrow> pystr \<Rightarrow> path" where
  "joinpath dir name = Path dir name"

text \<open>
  \<^verbatim>\<open>texto.encode("latin-1", errors="ignore")\<close>: a code point below 256 is its byte, any
  other is left out.
\<close>

definition encode_latin1_ignore :: "pystr \<Rightarrow> string" where
  "encode_latin1_ignore s = map char_of (filter (\<lambda>c. c < 256) s)"

text \<open>
  \<^verbatim>\<open>guardar_transcripcion\<close> returns nothing; the model returns the files it writes, each
  with its bytes: none when opening or writing raises (the error is printed).
\<close>

definition guardar_transcripcion :: "bool \<Rightarrow> pystr \<Rightarrow> path \<Rightarrow> (path \<times> string) list" where
  "guardar_transcripcion open_ok texto_diarizado ruta_salida_base =
     (let ruta_salida = with_suffix ruta_salida_base (str ''.diarized.txt'')
      in if open_ok then [(ruta_salida, encode_latin1_ignore texto_diarizado)] else [])"

section \<open>The per-file pipeline\<close>

text \<open>
  A Python \<^verbatim>\<open>float\<close> is an IEEE 754 double. A finite double is written here by a mantissa
  and an exponent: its value is \<open>mantissa * 2 ^ exponent\<close>, the mantissa below \<open>2 ^ 53\<close> in
  absolute value and the exponent at least \<open>-1074\<close>.
\<close>

datatype double = Double (mantissa: int) (exponent: int)

definition value_of :: "double \<Rightarrow> real" where
  "value_of x =
     (if 0 \<le> exponent x then real_of_int (mantissa x) * 2 ^ nat (exponent x)
      else real_of_int (mantissa x) / 2 ^ nat (- exponent x))"

text \<open>The number of binary digits of a natural number (\<^verbatim>\<open>int.bit_length\<close>).\<close>

fun bit_length :: "nat \<Rightarrow> nat" where
  "bit_length n = (if n = 0 then 0 else Suc (bit_length (n div 2)))"

declare bit_length.simps [simp del]

text \<open>\<open>n / 2 ^ k\<close> rounded to the nearest integer, a tie going to the even one.\<close>

definition round_half_even :: "nat \<Rightarrow> nat \<Rightarrow> nat" where
  "round_half_even n k =
     (let q = n div 2 ^ k; r = n mod 2 ^ k
      in if 2 ^ k < 2 * r \<or> (2 * r = 2 ^ k \<and> odd q) then q + 1 else q)"

text \<open>
  The double nearest to \<open>n * 2 ^ e\<close> (round to nearest, ties to even), for \<open>e\<close> at least
  \<open>-1074\<close>: a mantissa of more than 53 digits is rounded to 53. Overflow to infinity is not
  modelled: the times of turns, in seconds, are far below the largest double.
\<close>

definition nearest_double :: "int \<Rightarrow> int \<Rightarrow> double" where
  "nearest_double n e =
     (let len = bit_length (nat \<bar>n\<bar>)
      in if len \<le> 53 then Double n e
         else Double (sgn n * int (round_half_even (nat \<bar>n\<bar>) (len - 53))) (e + int (len - 53)))"

text \<open>
  \<^verbatim>\<open>x * c\<close> for a float \<open>x\<close> and an integer literal \<open>c\<close> (which converts to a double
  exactly): the exact product, rounded to a double.
\<close>

definition times_int :: "double \<Rightarrow> int \<Rightarrow> double" where
  "times_int x c = nearest_double (mantissa x * c) (exponent x)"

text \<open>\<^verbatim>\<open>int(x)\<close> of a float: truncation toward zero.\<close>

definition py_int :: "double \<Rightarrow> int" where
  "py_int x =
     (if 0 \<le> exponent x then mantissa x * 2 ^ nat (exponent x)
      else sgn (mantissa x) * (\<bar>mantissa x\<bar> div 2 ^ nat (- exponent x)))"

record turn =
  turn_start :: double
  turn_end :: double
  speaker :: pystr

text \<open>
  What the loop over the turns observes for turn \<open>i\<close>: whether slicing the audio and
  exporting the slice succeed, and the exported WAV file as the transcriber sees it.
\<close>

record turn_env =
  slice_ok :: bool
  export_ok :: bool
  turn_wav :: wav_file

text \<open>
  What the pipeline observes for one input file: whether it is a regular file, whether
  \<^verbatim>\<open>convertir_a_wav\<close> returns a path, whether the WAV loads, what \<^verbatim>\<open>diarizar_audio\<close>
  returns (\<open>None\<close>, or the turns in the order \<^verbatim>\<open>itertracks\<close> yields them), the WAV file
  as the transcriber sees it, the turns' observations, and whether the output file can be
  opened and written.
\<close>

record file_env =
  is_file :: bool
  convertir_a_wav :: bool
  from_wav_ok :: bool
  diarizar_audio :: "turn list option"
  ruta_wav :: wav_file
  turnos :: "nat \<Rightarrow> turn_env"
  open_ok :: bool

text \<open>
  The log of a file's run: the slices of the full audio taken for turns, and the calls of
  the transcriber (for the full WAV or for the WAV of a turn, with the value of
  \<^verbatim>\<open>forzar_chunking\<close>).
\<close>

datatype target = Full_wav | Turn_wav nat

datatype event = Extraer nat int int | Transcribir target bool

record file_state =
  texto_diarizado_final :: pystr
  events :: "event list"

definition duracion_ms :: "turn \<Rightarrow> int" where
  "duracion_ms t = py_int (times_int (turn_end t) 1000) - py_int (times_int (turn_start t) 1000)"

text \<open>\<^verbatim>\<open>resultado and resultado.get("text")\<close>: the text, when there is a result with one.\<close>

definition texto_de :: "addr transcription option \<Rightarrow> pystr" where
  "texto_de resultado =
     (case resultado of
        None \<Rightarrow> []
      | Some d \<Rightarrow> (case d_text d of None \<Rightarrow> [] | Some t \<Rightarrow> t))"

text \<open>The body of the loop over \<^verbatim>\<open>enumerate(diarization_info.itertracks(...))\<close>.\<close>

definition procesar_turno :: "file_env \<Rightarrow> file_state \<Rightarrow> nat \<times> turn \<Rightarrow> file_state" where
  "procesar_turno env st it =
     (case it of (i, t) \<Rightarrow>
        let start_ms = py_int (times_int (turn_start t) 1000);
            end_ms = py_int (times_int (turn_end t) 1000);
            duracion = end_ms - start_ms
        in if duracion < 100 then st
           else
             let st1 = st\<lparr>events := events st @ [Extraer i start_ms end_ms]\<rparr>
             in if \<not> slice_ok (turnos env i) then st1
                else if \<not> export_ok (turnos env i) then st1
                else
                  let resultado_transcripcion =
                        result (transcribir_wav_con_chunking_opcional (turn_wav (turnos env i)) False);
                      st2 = st1\<lparr>events := events st1 @ [Transcribir (Turn_wav i) False]\<rparr>
                  in if texto_de resultado_transcripcion \<noteq> [] then
                       st2\<lparr>texto_diarizado_final :=
                             texto_diarizado_final st2 @ speaker t @ str '': ''
                               @ texto_de resultado_transcripcion @ [10]\<rparr>
                     else st2)"

definition error_placeholder :: pystr where
  "error_placeholder =
     str ''SPEAKER_?: [Error en transcripci'' @ [243] @ str ''n completa]'' @ [10]"

text \<open>The whole-file branch taken when \<^verbatim>\<open>diarizar_audio\<close> returns \<^verbatim>\<open>None\<close>.\<close>

definition transcribir_sin_hablantes :: "file_env \<Rightarrow> file_state" where
  "transcribir_sin_hablantes env =
     (let resultado_completo = result (transcribir_wav_con_chunking_opcional (ruta_wav env) True)
      in \<lparr>texto_diarizado_final =
             (if texto_de resultado_completo \<noteq> []
              then str ''SPEAKER_?: '' @ texto_de resultado_completo @ [10]
              else error_placeholder),
          events = [Transcribir Full_wav True]\<rparr>)"

record file_run =
  texto_final :: pystr
  file_events :: "event list"
  written :: "(path \<times> string) list"

definition skipped :: file_run where
  "skipped = \<lparr>texto_final = [], file_events = [], written = []\<rparr>"

text \<open>The body of \<^verbatim>\<open>for ruta_audio in archivos_audio\<close>, for the input file named \<open>ruta_audio\<close>.\<close>

definition procesar_archivo :: "file_env \<Rightarrow> pystr list \<Rightarrow> pystr \<Rightarrow> file_run" where
  "procesar_archivo env dir_salida ruta_audio =
     (if \<not> is_file env then skipped
      else
        let nombre_base_salida = joinpath dir_salida (path_stem ruta_audio)
        in if \<not> convertir_a_wav env then skipped
           else if \<not> from_wav_ok env then skipped
           else
             let st = (case diarizar_audio env of
                         None \<Rightarrow> transcribir_sin_hablantes env
                       | Some turns \<Rightarrow>
                           foldl (procesar_turno env)
                             \<lparr>texto_diarizado_final = [], events = []\<rparr> (enumerate 0 turns))
             in \<lparr>texto_final = texto_diarizado_final st, file_events = events st,
                 written =
                   (if texto_diarizado_final st \<noteq> []
                    then guardar_transcripcion (open_ok env) (texto_diarizado_final st)
                           nombre_base_salida
                    else [])\<rparr>)"

text \<open>
  \<^verbatim>\<open>procesar_directorio\<close>, given whether the input directory exists and the entries that
  \<^verbatim>\<open>glob("*.*")\<close> lists, each with what the pipeline observes for it.
\<close>

definition procesar_directorio ::
  "bool \<Rightarrow> (pystr \<times> file_env) list \<Rightarrow> pystr list \<Rightarrow> file_run list" where
  "procesar_directorio is_dir archivos_audio dir_salida =
     (if \<not> is_dir then []
      else if archivos_audio = [] then []
      else map (\<lambda>(ruta_audio, env). procesar_archivo env dir_salida ruta_audio) archivos_audio)"

section \<open>Notions used to state the properties\<close>

text \<open>
  The definitions of this section are not in the source; the theorems use them to say
  what the source computes.
\<close>

text \<open>A segment with the offset added to its start and end, an absent one read as 0.\<close>

definition rebased :: "real \<Rightarrow> segment \<Rightarrow> segment" where
  "rebased offset s = s\<lparr>seg_start := Some (offset + get_start s), seg_end := Some (offset + get_end s)\<rparr>"

text \<open>The dictionaries of a log of calls that count as a success: returned, and not empty.\<close>

fun successes :: "call list \<Rightarrow> addr transcription list" where
  "successes [] = []"
| "successes ((q, None) # cs) = successes cs"
| "successes ((q, Some d) # cs) = (if truthy d then d # successes cs else successes cs)"

text \<open>The interval of chunk \<open>i\<close> among \<open>num_chunks\<close> chunks: start and end, in milliseconds.\<close>

definition chunk_bounds :: "nat \<Rightarrow> nat \<Rightarrow> nat \<Rightarrow> nat \<Rightarrow> nat \<times> nat" where
  "chunk_bounds num_chunks chunk_duration_ms total_duration_ms i =
     (i * chunk_duration_ms,
      if i < num_chunks - 1 then (i + 1) * chunk_duration_ms else total_duration_ms)"

text \<open>The segments of an answer of the service, none when the key is absent.\<close>

definition segments_of :: "segment transcription \<Rightarrow> segment list" where
  "segments_of r = (case d_segments r of None \<Rightarrow> [] | Some segs \<Rightarrow> segs)"

text \<open>
  The answer of the service for chunk \<open>i\<close> when its dispatch succeeds: the chunk is
  exported, the call returns, and the dictionary returned is not empty.
\<close>

definition chunk_success :: "wav_file \<Rightarrow> nat \<Rightarrow> segment transcription option" where
  "chunk_success w i =
     (if export_chunk w i
      then (case api_chunk w i of None \<Rightarrow> None | Some r \<Rightarrow> if truthy r then Some r else None)
      else None)"

text \<open>The state of the loop over the chunks after \<open>k\<close> iterations.\<close>

definition chunk_loop :: "wav_file \<Rightarrow> nat \<Rightarrow> nat \<Rightarrow> nat \<Rightarrow> nat \<Rightarrow> chunk_state" where
  "chunk_loop w n cd dur k = foldl (chunk_step w n cd dur) initial_state [0 ..< k]"

text \<open>
  What the re-basing owes to one successful call of the primitive, for chunk \<open>i\<close> starting
  at \<open>s\<close> milliseconds and returning \<open>d\<close>, in a store \<open>h\<close> with the combined segments
  \<open>combined\<close>: the segment objects of \<open>d\<close> still hold what the service answered, and for
  each of them the combined segments hold another object, its copy with the offset added.
\<close>

definition call_rebased ::
  "wav_file \<Rightarrow> store \<Rightarrow> addr list \<Rightarrow> nat \<Rightarrow> nat \<Rightarrow> addr transcription \<Rightarrow> bool" where
  "call_rebased w h combined i s d \<longleftrightarrow>
     (\<exists>r as. api_chunk w i = Some r
        \<and> d_segments d = map_option (\<lambda>_. as) (d_segments r)
        \<and> length as = length (segments_of r)
        \<and> (\<forall>j<length as.
              as ! j < length h \<and> h ! (as ! j) = segments_of r ! j
              \<and> (\<exists>b\<in>set combined.
                    b < length h \<and> b \<notin> set as
                    \<and> h ! b = rebased (real s / 1000) (segments_of r ! j))))"

text \<open>The same for every successful call of a loop state, each chunk starting at \<open>i * cd\<close>.\<close>

definition calls_rebased :: "wav_file \<Rightarrow> nat \<Rightarrow> chunk_state \<Rightarrow> bool" where
  "calls_rebased w cd st \<longleftrightarrow>
     (\<forall>i s e d. (Chunk_wav i s e, Some d) \<in> set (calls st) \<longrightarrow> truthy d \<longrightarrow>
        s = i * cd \<and> call_rebased w (objs st) (all_segments st) i s d)"

text \<open>
  The line a turn adds to the transcript: none when the turn is skipped, when slicing or
  exporting fails, or when the transcription has no text.
\<close>

definition linea_turno :: "file_env \<Rightarrow> nat \<Rightarrow> turn \<Rightarrow> pystr" where
  "linea_turno env i t =
     (if duracion_ms t < 100 \<or> \<not> slice_ok (turnos env i) \<or> \<not> export_ok (turnos env i) then []
      else if texto_de (result (transcribir_wav_con_chunking_opcional (turn_wav (turnos env i)) False)) \<noteq> []
      then speaker t @ str '': ''
             @ texto_de (result (transcribir_wav_con_chunking_opcional (turn_wav (turnos env i)) False))
             @ [10]
      else [])"

section \<open>Example inputs\<close>

text \<open>
  The WAV files of the examples have the sizes of exports of 16 kHz mono audio: a header
  of 44 bytes and 32 bytes for a millisecond of 16-bit samples, 48 bytes of 24-bit ones.
\<close>

text \<open>A WAV file of five seconds, below the size limit, which the service transcribes.\<close>

definition wav_small :: wav_file where
  "wav_small =
     \<lparr>st_size = 160044, from_wav = Some 5000,
      api_whole = Some \<lparr>d_text = Some (str ''  hola ''), d_language = Some (str ''es''),
                        d_segments = Some [\<lparr>seg_start = Some 0, seg_end = Some 2.5,
                                            seg_text = str ''hola''\<rparr>],
                        d_extra = []\<rparr>,
      export_chunk = (\<lambda>i. True), api_chunk = (\<lambda>i. None)\<rparr>"

text \<open>
  A WAV file of ten minutes and one millisecond of 24-bit samples, 28.8 MB: two chunks. The first chunk is
  silent (the service answers an empty text and no segment), the second has one segment.
\<close>

definition wav_two_chunks :: wav_file where
  "wav_two_chunks =
     \<lparr>st_size = 28800092, from_wav = Some 600001, api_whole = None,
      export_chunk = (\<lambda>i. True),
      api_chunk = (\<lambda>i. if i = 0
                         then Some \<lparr>d_text = Some [], d_language = Some (str ''es''),
                                    d_segments = Some [], d_extra = []\<rparr>
                         else Some \<lparr>d_text = Some (str ''hola''), d_language = Some (str ''es''),
                                    d_segments = Some [\<lparr>seg_start = Some 2, seg_end = Some 4.5,
                                                        seg_text = str ''hola''\<rparr>],
                                    d_extra = []\<rparr>)\<rparr>"

text \<open>An empty WAV file, a header without audio, which the service would transcribe.\<close>

definition wav_empty :: wav_file where
  "wav_empty =
     \<lparr>st_size = 44, from_wav = Some 0, api_whole = None,
      export_chunk = (\<lambda>i. True),
      api_chunk = (\<lambda>i. Some \<lparr>d_text = Some (str ''hola''), d_language = Some (str ''es''),
                               d_segments = None, d_extra = []\<rparr>)\<rparr>"

text \<open>A file of ten minutes, 28.8 MB, for which every call of the service raises.\<close>

definition wav_all_fail :: wav_file where
  "wav_all_fail =
     \<lparr>st_size = 28800044, from_wav = Some 600000, api_whole = None,
      export_chunk = (\<lambda>i. True), api_chunk = (\<lambda>i. None)\<rparr>"

text \<open>
  A silent WAV file of five seconds, transcribed with forced chunking: the service
  answers, with an empty text.
\<close>

definition wav_silent :: wav_file where
  "wav_silent =
     \<lparr>st_size = 160044, from_wav = Some 5000, api_whole = None,
      export_chunk = (\<lambda>i. True),
      api_chunk = (\<lambda>i. Some \<lparr>d_text = Some [], d_language = Some (str ''es''),
                               d_segments = Some [], d_extra = []\<rparr>)\<rparr>"

text \<open>A WAV file of five seconds that the service answers with an empty text.\<close>

definition wav_small_silent :: wav_file where
  "wav_small_silent =
     \<lparr>st_size = 160044, from_wav = Some 5000,
      api_whole = Some \<lparr>d_text = Some [], d_language = Some (str ''es''),
                        d_segments = Some [], d_extra = []\<rparr>,
      export_chunk = (\<lambda>i. True), api_chunk = (\<lambda>i. None)\<rparr>"

text \<open>A WAV file of five seconds for which the call of the service raises.\<close>

definition wav_small_error :: wav_file where
  "wav_small_error =
     \<lparr>st_size = 160044, from_wav = Some 5000, api_whole = None,
      export_chunk = (\<lambda>i. True), api_chunk = (\<lambda>i. None)\<rparr>"

text \<open>
  Three turns: speaker 00 from 0 s to 5 s, speaker 01 from 5 s to 5.05 s (50 ms), and
  speaker 02 from 6 s to 40 s. The double 5.05 is \<open>5685794529555251 / 2 ^ 50\<close>.
\<close>

definition three_turns :: "turn list" where
  "three_turns =
     [\<lparr>turn_start = Double 0 0, turn_end = Double 5 0, speaker = str ''SPEAKER_00''\<rparr>,
      \<lparr>turn_start = Double 5 0, turn_end = Double 5685794529555251 (- 50),
       speaker = str ''SPEAKER_01''\<rparr>,
      \<lparr>turn_start = Double 6 0, turn_end = Double 40 0, speaker = str ''SPEAKER_02''\<rparr>]"

text \<open>
  A turn from 0.0009 s to 0.1 s, which lasts 99.1 ms. The double 0.0009 is
  \<open>4150517416584649 / 2 ^ 62\<close> and the double 0.1 is \<open>3602879701896397 / 2 ^ 55\<close>.
\<close>

definition turn_99ms :: turn where
  "turn_99ms =
     \<lparr>turn_start = Double 4150517416584649 (- 62), turn_end = Double 3602879701896397 (- 55),
      speaker = str ''SPEAKER_00''\<rparr>"

text \<open>
  A turn from 0.5 s to 0.6 s. The double 0.6 is \<open>5404319552844595 / 2 ^ 53\<close>, a little
  below six tenths; its product with 1000 rounds to the double 600.
\<close>

definition turn_half_second :: turn where
  "turn_half_second =
     \<lparr>turn_start = Double 1 (- 1), turn_end = Double 5404319552844595 (- 53),
      speaker = str ''SPEAKER_00''\<rparr>"

text \<open>A WAV file of 100 ms, which the service transcribes.\<close>

definition wav_100ms :: wav_file where
  "wav_100ms =
     \<lparr>st_size = 3244, from_wav = Some 100,
      api_whole = Some \<lparr>d_text = Some (str ''hola''), d_language = Some (str ''es''),
                        d_segments = Some [\<lparr>seg_start = Some 0, seg_end = Some 0.1,
                                            seg_text = str ''hola''\<rparr>],
                        d_extra = []\<rparr>,
      export_chunk = (\<lambda>i. True), api_chunk = (\<lambda>i. None)\<rparr>"

text \<open>
  A file of five seconds diarized into the one turn of 99.1 ms; the slice of the turn is
  exported to the WAV file of 100 ms.
\<close>

definition env_99ms :: file_env where
  "env_99ms =
     \<lparr>is_file = True, convertir_a_wav = True, from_wav_ok = True,
      diarizar_audio = Some [turn_99ms], ruta_wav = wav_small,
      turnos = (\<lambda>i. \<lparr>slice_ok = True, export_ok = True, turn_wav = wav_100ms\<rparr>),
      open_ok = True\<rparr>"

text \<open>
  A file diarized into these turns: the first turn is transcribed, and the service
  answers with an empty text for the others.
\<close>

definition env_diarized :: file_env where
  "env_diarized =
     \<lparr>is_file = True, convertir_a_wav = True, from_wav_ok = True,
      diarizar_audio = Some three_turns, ruta_wav = wav_two_chunks,
      turnos = (\<lambda>i. \<lparr>slice_ok = True, export_ok = True,
                       turn_wav = (if i = 0 then wav_small else wav_small_silent)\<rparr>),
      open_ok = True\<rparr>"

text \<open>The same file when no turn is transcribed: the call raises or the text is empty.\<close>

definition env_no_lines :: file_env where
  "env_no_lines =
     \<lparr>is_file = True, convertir_a_wav = True, from_wav_ok = True,
      diarizar_audio = Some three_turns, ruta_wav = wav_two_chunks,
      turnos = (\<lambda>i. \<lparr>slice_ok = True, export_ok = True,
                       turn_wav = (if i = 0 then wav_small_error else wav_small_silent)\<rparr>),
      open_ok = True\<rparr>"

text \<open>A file of ten minutes, 28.8 MB, for which no diarization is available.\<close>

definition env_fallback :: file_env where
  "env_fallback =
     \<lparr>is_file = True, convertir_a_wav = True, from_wav_ok = True,
      diarizar_audio = None, ruta_wav = wav_two_chunks,
      turnos = (\<lambda>i. \<lparr>slice_ok = True, export_ok = True, turn_wav = wav_small\<rparr>),
      open_ok = True\<rparr>"

text \<open>The same when every call of the service raises as well.\<close>

definition env_fallback_error :: file_env where
  "env_fallback_error =
     \<lparr>is_file = True, convertir_a_wav = True, from_wav_ok = True,
      diarizar_audio = None, ruta_wav = wav_all_fail,
      turnos = (\<lambda>i. \<lparr>slice_ok = True, export_ok = True, turn_wav = wav_small\<rparr>),
      open_ok = True\<rparr>"

text \<open>The output directory of the examples.\<close>

definition dir_text :: "pystr list" where
  "dir_text = [str ''text'']"

section \<open>The loop over the chunks\<close>

lemma adjust_segment_valid:
  assumes "seg < length h"
  shows "adjust_segment offset (h, segs) seg = (h @ [rebased offset (h ! seg)], segs @ [length h])"
  using assms by (simp add: adjust_segment_def Let_def rebased_def nth_append)

lemma foldl_adjust_segment:
  assumes "\<forall>a\<in>set as. a < length h"
  shows "foldl (adjust_segment offset) (h, segs) as =
           (h @ map (\<lambda>a. rebased offset (h ! a)) as, segs @ [length h ..< length h + length as])"
  using assms
proof (induction as arbitrary: h segs)
  case Nil
  then show ?case by simp
next
  case (Cons a as)
  have a: "a < length h" using Cons.prems by simp
  have rest: "\<forall>b\<in>set as. b < length (h @ [rebased offset (h ! a)])"
    using Cons.prems by auto
  have same: "map (\<lambda>b. rebased offset ((h @ [rebased offset (h ! a)]) ! b)) as =
              map (\<lambda>b. rebased offset (h ! b)) as"
    using Cons.prems by (auto simp: nth_append)
  have upt: "[length h ..< length h + length (a # as)] =
             length h # [length (h @ [rebased offset (h ! a)]) ..<
                          length (h @ [rebased offset (h ! a)]) + length as]"
    by (simp add: upt_conv_Cons del: upt_Suc)
  have "foldl (adjust_segment offset) (h, segs) (a # as) =
        foldl (adjust_segment offset) (h @ [rebased offset (h ! a)], segs @ [length h]) as"
    using a by (simp add: adjust_segment_valid)
  also have "\<dots> = ((h @ [rebased offset (h ! a)]) @ map (\<lambda>b. rebased offset (h ! b)) as,
                   (segs @ [length h]) @ [length (h @ [rebased offset (h ! a)]) ..<
                          length (h @ [rebased offset (h ! a)]) + length as])"
    using Cons.IH [OF rest, of "segs @ [length h]"] by (simp only: same)
  finally show ?case
    by (simp only: upt list.map append_assoc append_Cons append_Nil)
qed

lemma successes_append: "successes (cs @ ds) = successes cs @ successes ds"
  by (induction cs rule: successes.induct) auto


lemma to_dict_fields:
  "d_text (snd (to_dict h r)) = d_text r"
  "d_language (snd (to_dict h r)) = d_language r"
  "d_extra (snd (to_dict h r)) = d_extra r"
  "d_segments (snd (to_dict h r)) =
     map_option (\<lambda>segs. [length h ..< length h + length segs]) (d_segments r)"
  "fst (to_dict h r) = h @ (case d_segments r of None \<Rightarrow> [] | Some segs \<Rightarrow> segs)"
  by (simp_all add: to_dict_def split: option.splits)

lemma truthy_to_dict: "truthy (snd (to_dict h r)) \<longleftrightarrow> truthy r"
  by (simp add: truthy_def to_dict_fields)

lemma get_text_to_dict: "get_text (snd (to_dict h r)) = get_text r"
  by (simp add: get_text_def to_dict_fields)

lemma map_nth_append_upt: "map ((!) (h @ segs)) [length h ..< length h + length segs] = segs"
  by (rule nth_equalityI) (simp_all add: nth_append)

lemma rebase_fresh_segments:
  "foldl (adjust_segment offset) (h @ segs, acc) [length h ..< length h + length segs] =
     (h @ segs @ map (rebased offset) segs,
      acc @ [length h + length segs ..< length h + length segs + length segs])"
proof -
  have valid: "\<forall>a\<in>set [length h ..< length h + length segs]. a < length (h @ segs)"
    by simp
  have "map (\<lambda>a. rebased offset ((h @ segs) ! a)) [length h ..< length h + length segs] =
        map (rebased offset) (map ((!) (h @ segs)) [length h ..< length h + length segs])"
    by simp
  then have vals: "map (\<lambda>a. rebased offset ((h @ segs) ! a)) [length h ..< length h + length segs] =
        map (rebased offset) segs"
    by (simp only: map_nth_append_upt)
  show ?thesis
    using foldl_adjust_segment [OF valid, of offset acc] by (simp add: vals)
qed

lemma chunk_step_eq:
  "chunk_step w n cd dur st i =
     (let b = chunk_bounds n cd dur i
      in if \<not> fst b < snd b then st
         else if \<not> export_chunk w i then st\<lparr>slices := slices st @ [b]\<rparr>
         else
           (case api_chunk w i of
              None \<Rightarrow> st\<lparr>slices := slices st @ [b],
                          calls := calls st @ [(Chunk_wav i (fst b) (snd b), None)]\<rparr>
            | Some r \<Rightarrow>
                if \<not> truthy r then
                  st\<lparr>slices := slices st @ [b],
                     calls := calls st @ [(Chunk_wav i (fst b) (snd b), Some (snd (to_dict (objs st) r)))]\<rparr>
                else
                  st\<lparr>slices := slices st @ [b],
                     calls := calls st @ [(Chunk_wav i (fst b) (snd b), Some (snd (to_dict (objs st) r)))],
                     all_text := all_text st @ get_text r @ [32],
                     last_successful_lang :=
                       (case d_language r of None \<Rightarrow> last_successful_lang st | Some l \<Rightarrow> l),
                     objs := objs st @ segments_of r @ map (rebased (real (fst b) / 1000)) (segments_of r),
                     all_segments := all_segments st @
                        [length (objs st) + length (segments_of r) ..<
                         length (objs st) + length (segments_of r) + length (segments_of r)]\<rparr>))"
proof (cases "api_chunk w i")
  case None
  then show ?thesis
    by (simp add: chunk_step_def chunk_bounds_def Let_def transcribir_chunk_whisper_def)
next
  case (Some r)
  show ?thesis
  proof (cases "truthy r")
    case False
    then have "d_segments r = None" by (simp add: truthy_def)
    with Some False show ?thesis
      by (simp add: chunk_step_def chunk_bounds_def Let_def transcribir_chunk_whisper_def
            truthy_def to_dict_def)
  next
    case True
    show ?thesis
    proof (cases "d_segments r")
      case None
      with Some True show ?thesis
        by (simp add: chunk_step_def chunk_bounds_def Let_def transcribir_chunk_whisper_def
            truthy_def to_dict_def get_text_def segments_of_def split: option.split)
    next
      case (Some segs)
      with \<open>api_chunk w i = Some r\<close> True show ?thesis
        by (simp add: chunk_step_def chunk_bounds_def Let_def transcribir_chunk_whisper_def
            truthy_def to_dict_def get_text_def segments_of_def rebase_fresh_segments
            split: option.split)
    qed
  qed
qed


lemma chunk_loop_0: "chunk_loop w n cd dur 0 = initial_state"
  by (simp add: chunk_loop_def)

lemma chunk_loop_Suc:
  "chunk_loop w n cd dur (Suc k) = chunk_step w n cd dur (chunk_loop w n cd dur k) k"
  by (simp add: chunk_loop_def)

subsection \<open>Arithmetic of the split\<close>

lemma num_chunks_of_max:
  "num_chunks_of sz = max 1 (nat \<lceil>real sz / real WHISPER_API_LIMIT_BYTES\<rceil>)"
proof (cases "sz > WHISPER_API_LIMIT_BYTES")
  case True
  then have "1 < real sz / real WHISPER_API_LIMIT_BYTES"
    by (simp add: WHISPER_API_LIMIT_BYTES_def)
  then have "1 \<le> nat \<lceil>real sz / real WHISPER_API_LIMIT_BYTES\<rceil>"
    by linarith
  then have "max 1 (nat \<lceil>real sz / real WHISPER_API_LIMIT_BYTES\<rceil>) =
             nat \<lceil>real sz / real WHISPER_API_LIMIT_BYTES\<rceil>"
    by (rule max.absorb2)
  moreover have "num_chunks_of sz = nat \<lceil>real sz / real WHISPER_API_LIMIT_BYTES\<rceil>"
    using True by (simp add: num_chunks_of_def)
  ultimately show ?thesis by (simp only:)
next
  case False
  then have "real sz / real WHISPER_API_LIMIT_BYTES \<le> 1"
    by (simp add: WHISPER_API_LIMIT_BYTES_def)
  then have "nat \<lceil>real sz / real WHISPER_API_LIMIT_BYTES\<rceil> \<le> 1"
    by linarith
  then have "max 1 (nat \<lceil>real sz / real WHISPER_API_LIMIT_BYTES\<rceil>) = 1"
    by (rule max.absorb1)
  moreover have "num_chunks_of sz = 1"
    using False by (simp add: num_chunks_of_def)
  ultimately show ?thesis by (simp only:)
qed

lemma num_chunks_of_pos: "0 < num_chunks_of sz"
  unfolding num_chunks_of_max by (rule less_le_trans [OF zero_less_one max.cobounded1])

lemma floor_real_div: "nat \<lfloor>real a / real b\<rfloor> = a div b"
  by (simp add: floor_divide_of_nat_eq)

lemma chunk_duration_of_div:
  assumes "0 < n"
  shows "chunk_duration_of dur n = dur div n"
  using assms by (auto simp: chunk_duration_of_def floor_real_div Let_def)

lemma chunk_duration_pos_iff:
  assumes "0 < n"
  shows "0 < chunk_duration_of dur n \<longleftrightarrow> n \<le> dur"
  using assms by (simp add: chunk_duration_of_div div_greater_zero_iff)

lemma chunk_bounds_nonempty:
  assumes "0 < cd" and "n * cd \<le> dur" and "i < n"
  shows "fst (chunk_bounds n cd dur i) < snd (chunk_bounds n cd dur i)"
proof (cases "i < n - 1")
  case True
  then show ?thesis using assms by (simp add: chunk_bounds_def)
next
  case False
  then have "n = Suc i" using assms by simp
  then have "i * cd + cd = n * cd" by simp
  then have "i * cd < dur" using assms by linarith
  with False show ?thesis by (simp add: chunk_bounds_def)
qed

lemma slices_chunk_loop:
  assumes "0 < cd" and "n * cd \<le> dur" and "k \<le> n"
  shows "slices (chunk_loop w n cd dur k) = map (chunk_bounds n cd dur) [0 ..< k]"
  using assms(3)
proof (induction k)
  case 0
  show ?case by (simp add: chunk_loop_0 initial_state_def)
next
  case (Suc k)
  then have "fst (chunk_bounds n cd dur k) < snd (chunk_bounds n cd dur k)"
    using chunk_bounds_nonempty [OF assms(1,2), of k] by simp
  then have "slices (chunk_step w n cd dur (chunk_loop w n cd dur k) k) =
             slices (chunk_loop w n cd dur k) @ [chunk_bounds n cd dur k]"
    by (simp add: chunk_step_eq Let_def split: option.split)
  with Suc show ?case by (simp add: chunk_loop_Suc)
qed

subsection \<open>A run of the transcriber in terms of the loop\<close>

lemma run_not_loaded:
  assumes "forzar \<or> WHISPER_API_LIMIT_BYTES < st_size w" and "from_wav w = None"
  shows "transcribir_wav_con_chunking_opcional w forzar =
           \<lparr>result = None, run_objs = [], run_calls = [], run_slices = []\<rparr>"
  using assms by (auto simp: transcribir_wav_con_chunking_opcional_def)

lemma run_too_short:
  assumes "forzar \<or> WHISPER_API_LIMIT_BYTES < st_size w" and "from_wav w = Some dur"
    and "dur < num_chunks_of (st_size w)"
  shows "transcribir_wav_con_chunking_opcional w forzar =
           \<lparr>result = None, run_objs = [], run_calls = [], run_slices = []\<rparr>"
proof -
  have "\<not> 0 < chunk_duration_of dur (num_chunks_of (st_size w))"
    using assms(3) by (simp add: chunk_duration_pos_iff [OF num_chunks_of_pos])
  then show ?thesis
    using assms(1,2) by (auto simp: transcribir_wav_con_chunking_opcional_def Let_def)
qed

lemma run_chunked:
  assumes "forzar \<or> WHISPER_API_LIMIT_BYTES < st_size w" and "from_wav w = Some dur"
    and "num_chunks_of (st_size w) \<le> dur"
  shows "transcribir_wav_con_chunking_opcional w forzar =
           (let n = num_chunks_of (st_size w); st = chunk_loop w n (dur div n) dur n
            in if all_text st = [] then
                 \<lparr>result = None, run_objs = objs st, run_calls = calls st, run_slices = slices st\<rparr>
               else
                 \<lparr>result = Some \<lparr>d_text = Some (strip (all_text st)),
                                  d_language = Some (last_successful_lang st),
                                  d_segments = Some (all_segments st), d_extra = []\<rparr>,
                  run_objs = objs st, run_calls = calls st, run_slices = slices st\<rparr>)"
proof -
  have cd: "chunk_duration_of dur (num_chunks_of (st_size w)) = dur div num_chunks_of (st_size w)"
    by (rule chunk_duration_of_div [OF num_chunks_of_pos])
  have "0 < chunk_duration_of dur (num_chunks_of (st_size w))"
    using assms(3) by (simp add: chunk_duration_pos_iff [OF num_chunks_of_pos])
  then have pos: "\<not> dur div num_chunks_of (st_size w) \<le> 0"
    by (simp add: cd)
  show ?thesis
    using assms(1,2) pos
    by (auto simp: transcribir_wav_con_chunking_opcional_def Let_def cd chunk_loop_def)
qed

lemma all_text_chunk_step:
  assumes "all_text st = concat (map (\<lambda>d. get_text d @ [32]) (successes (calls st)))"
  shows "all_text (chunk_step w n cd dur st i) =
           concat (map (\<lambda>d. get_text d @ [32]) (successes (calls (chunk_step w n cd dur st i))))"
  using assms
  by (simp add: chunk_step_eq Let_def successes_append truthy_to_dict get_text_to_dict
        split: option.split)

lemma all_text_chunk_loop:
  "all_text (chunk_loop w n cd dur k) =
     concat (map (\<lambda>d. get_text d @ [32]) (successes (calls (chunk_loop w n cd dur k))))"
  by (induction k) (simp_all add: chunk_loop_0 chunk_loop_Suc initial_state_def all_text_chunk_step)

lemma map_filter_snoc:
  "List.map_filter f (xs @ [x]) = List.map_filter f xs @ (case f x of None \<Rightarrow> [] | Some y \<Rightarrow> [y])"
  by (simp add: List.map_filter_def split: option.split)

lemma successes_chunk_step:
  assumes "fst (chunk_bounds n cd dur i) < snd (chunk_bounds n cd dur i)"
  shows "map get_text (successes (calls (chunk_step w n cd dur st i))) =
           map get_text (successes (calls st)) @
             (case chunk_success w i of None \<Rightarrow> [] | Some r \<Rightarrow> [get_text r])"
  using assms
  by (simp add: chunk_step_eq Let_def successes_append truthy_to_dict get_text_to_dict
        chunk_success_def split: option.split)

lemma successes_chunk_loop:
  assumes "0 < cd" and "n * cd \<le> dur" and "k \<le> n"
  shows "map get_text (successes (calls (chunk_loop w n cd dur k))) =
           map get_text (List.map_filter (chunk_success w) [0 ..< k])"
  using assms(3)
proof (induction k)
  case 0
  show ?case by (simp add: chunk_loop_0 initial_state_def List.map_filter_def)
next
  case (Suc k)
  then have ne: "fst (chunk_bounds n cd dur k) < snd (chunk_bounds n cd dur k)"
    using chunk_bounds_nonempty [OF assms(1,2), of k] by simp
  show ?case
    using Suc by (simp add: chunk_loop_Suc successes_chunk_step [OF ne] map_filter_snoc
        split: option.split)
qed

lemma concat_space_joined:
  assumes "ts \<noteq> []"
  shows "concat (map (\<lambda>t. t @ [32]) ts) = space_joined ts @ [32]"
  using assms by (induction ts rule: space_joined.induct) simp_all

lemma strip_snoc_space:
  assumes "isspace c"
  shows "strip (s @ [c]) = strip s"
proof (cases "\<forall>x\<in>set s. isspace x")
  case True
  then have a: "dropWhile isspace s = []"
    by simp
  have b: "dropWhile isspace (s @ [c]) = []"
    using True assms by simp
  show ?thesis by (simp only: strip_def a b)
next
  case False
  then obtain x where "x \<in> set s" and "\<not> isspace x"
    by blast
  then have "dropWhile isspace (s @ [c]) = dropWhile isspace s @ [c]"
    by (rule dropWhile_append1)
  then show ?thesis using assms by (simp add: strip_def)
qed

lemma isspace_32: "isspace 32"
  by (simp add: isspace_def)

subsection \<open>The intervals of the split\<close>

lemma chunk_bounds_fst: "fst (chunk_bounds n cd dur i) = i * cd"
  by (simp add: chunk_bounds_def)

lemma chunk_bounds_snd_inner:
  assumes "i + 1 < n"
  shows "snd (chunk_bounds n cd dur i) = (i + 1) * cd"
proof -
  have "i < n - 1" using assms by simp
  then show ?thesis by (simp add: chunk_bounds_def)
qed

lemma chunk_bounds_snd_last:
  assumes "0 < n"
  shows "snd (chunk_bounds n cd dur (n - 1)) = dur"
  using assms by (simp add: chunk_bounds_def)

lemma chunk_bounds_last_length:
  assumes "0 < n"
  shows "snd (chunk_bounds n (dur div n) dur (n - 1)) - fst (chunk_bounds n (dur div n) dur (n - 1)) =
           dur div n + dur mod n"
proof -
  obtain m where n: "n = Suc m" using assms by (cases n) auto
  have "dur = n * (dur div n) + dur mod n" by simp
  then have "dur = m * (dur div n) + (dur div n + dur mod n)"
    by (simp add: n)
  then have "dur - m * (dur div n) = dur div n + dur mod n"
    by linarith
  then show ?thesis by (simp add: chunk_bounds_def n)
qed

lemma chunk_bounds_disjoint:
  assumes "i < j" and "j < n"
  shows "snd (chunk_bounds n cd dur i) \<le> fst (chunk_bounds n cd dur j)"
proof -
  have "i + 1 < n" using assms by simp
  then have "snd (chunk_bounds n cd dur i) = (i + 1) * cd"
    by (rule chunk_bounds_snd_inner)
  moreover have "(i + 1) * cd \<le> j * cd"
    using assms(1) by (intro mult_le_mono1) simp
  ultimately show ?thesis by (simp add: chunk_bounds_fst)
qed

lemma chunk_bounds_snd_le:
  assumes "n * cd \<le> dur" and "i < n"
  shows "snd (chunk_bounds n cd dur i) \<le> dur"
proof (cases "i < n - 1")
  case True
  then have "(i + 1) * cd \<le> n * cd"
    by (intro mult_le_mono1) simp
  with True assms(1) show ?thesis by (simp add: chunk_bounds_def)
next
  case False
  then show ?thesis by (simp add: chunk_bounds_def)
qed

lemma chunk_bounds_cover:
  assumes "0 < cd" and "n * cd \<le> dur" and "0 < n"
  shows "(\<Union>i<n. {fst (chunk_bounds n cd dur i) ..< snd (chunk_bounds n cd dur i)}) = {0 ..< dur}"
proof (intro set_eqI iffI)
  fix x
  assume "x \<in> (\<Union>i<n. {fst (chunk_bounds n cd dur i) ..< snd (chunk_bounds n cd dur i)})"
  then obtain i where "i < n" and "x < snd (chunk_bounds n cd dur i)"
    by auto
  then show "x \<in> {0 ..< dur}"
    using chunk_bounds_snd_le [OF assms(2), of i] by simp
next
  fix x
  assume "x \<in> {0 ..< dur}"
  then have x: "x < dur" by simp
  show "x \<in> (\<Union>i<n. {fst (chunk_bounds n cd dur i) ..< snd (chunk_bounds n cd dur i)})"
  proof (cases "x div cd < n - 1")
    case True
    have "(x div cd) * cd \<le> x"
      by simp
    moreover have "x < (x div cd + 1) * cd"
      using assms(1) by (metis Suc_eq_plus1 dividend_less_div_times mult.commute mult_Suc)
    ultimately have "x \<in> {fst (chunk_bounds n cd dur (x div cd)) ..< snd (chunk_bounds n cd dur (x div cd))}"
      using True by (simp add: chunk_bounds_def)
    moreover have "x div cd < n" using True by simp
    ultimately show ?thesis by blast
  next
    case False
    then have "n - 1 \<le> x div cd" by simp
    then have "(n - 1) * cd \<le> (x div cd) * cd"
      by (rule mult_le_mono1)
    also have "\<dots> \<le> x" by simp
    finally have "x \<in> {fst (chunk_bounds n cd dur (n - 1)) ..< snd (chunk_bounds n cd dur (n - 1))}"
      using x by (simp add: chunk_bounds_def)
    moreover have "n - 1 < n" using assms(3) by simp
    ultimately show ?thesis by blast
  qed
qed

lemma Union_set_map_upt:
  "(\<Union>(s, e)\<in>set (map f [0 ..< n]). {s ..< e}) = (\<Union>i<n. {fst (f i) ..< snd (f i)})"
  by (auto simp: case_prod_beta)

text \<open>
  A WAV export of non-empty audio is long enough for its chunks: with a header of at
  most 76 bytes and at most 64 bytes for a millisecond (16 kHz, one channel, samples of
  at most 32 bits), the number of chunks is at most the duration in milliseconds.
\<close>

lemma canonical_wav_fits:
  assumes "0 < dur" and "sz \<le> 76 + 64 * dur"
  shows "num_chunks_of sz \<le> dur"
proof (cases "WHISPER_API_LIMIT_BYTES < sz")
  case False
  then show ?thesis using assms(1) by (simp add: num_chunks_of_def)
next
  case True
  have "sz \<le> dur * WHISPER_API_LIMIT_BYTES"
    using assms by (simp add: WHISPER_API_LIMIT_BYTES_def)
  then have "real sz \<le> real dur * real WHISPER_API_LIMIT_BYTES"
    by (metis of_nat_le_iff of_nat_mult)
  then have "real sz / real WHISPER_API_LIMIT_BYTES \<le> real dur"
    by (simp add: WHISPER_API_LIMIT_BYTES_def field_simps)
  then have "\<lceil>real sz / real WHISPER_API_LIMIT_BYTES\<rceil> \<le> int dur"
    by (simp add: ceiling_le_iff)
  then have "nat \<lceil>real sz / real WHISPER_API_LIMIT_BYTES\<rceil> \<le> dur"
    by linarith
  moreover have "num_chunks_of sz = nat \<lceil>real sz / real WHISPER_API_LIMIT_BYTES\<rceil>"
    using True by (simp add: num_chunks_of_def)
  ultimately show ?thesis by (simp only:)
qed

subsection \<open>The runs on the example files\<close>

lemma num_chunks_two: "num_chunks_of (st_size wav_two_chunks) = 2"
  by (simp add: wav_two_chunks_def num_chunks_of_def WHISPER_API_LIMIT_BYTES_def)

lemma two_chunks_loop_1:
  "chunk_loop wav_two_chunks 2 300000 600001 (Suc 0) =
     \<lparr>all_text = [32], all_segments = [], last_successful_lang = str ''es'', objs = [],
      calls = [(Chunk_wav 0 0 300000,
                 Some \<lparr>d_text = Some [], d_language = Some (str ''es''),
                       d_segments = Some [], d_extra = []\<rparr>)],
      slices = [(0, 300000)]\<rparr>"
  by (simp add: chunk_loop_Suc chunk_loop_0 chunk_step_eq chunk_bounds_def wav_two_chunks_def
        initial_state_def truthy_def get_text_def to_dict_def segments_of_def)

lemma two_chunks_loop_2:
  "chunk_loop wav_two_chunks 2 300000 600001 (Suc (Suc 0)) =
     \<lparr>all_text = [32] @ str ''hola'' @ [32], all_segments = [1], last_successful_lang = str ''es'',
      objs = [\<lparr>seg_start = Some 2, seg_end = Some 4.5, seg_text = str ''hola''\<rparr>,
              \<lparr>seg_start = Some 302, seg_end = Some 304.5, seg_text = str ''hola''\<rparr>],
      calls = [(Chunk_wav 0 0 300000,
                 Some \<lparr>d_text = Some [], d_language = Some (str ''es''),
                       d_segments = Some [], d_extra = []\<rparr>),
               (Chunk_wav 1 300000 600001,
                 Some \<lparr>d_text = Some (str ''hola''), d_language = Some (str ''es''),
                       d_segments = Some [0], d_extra = []\<rparr>)],
      slices = [(0, 300000), (300000, 600001)]\<rparr>"
  apply (subst chunk_loop_Suc)
  apply (subst two_chunks_loop_1)
  apply (simp add: chunk_step_eq chunk_bounds_def wav_two_chunks_def truthy_def get_text_def
      to_dict_def segments_of_def rebased_def get_start_def get_end_def)
  done

lemma run_two_chunks:
  "transcribir_wav_con_chunking_opcional wav_two_chunks forzar =
     \<lparr>result = Some \<lparr>d_text = Some (str ''hola''), d_language = Some (str ''es''),
                      d_segments = Some [1], d_extra = []\<rparr>,
      run_objs = [\<lparr>seg_start = Some 2, seg_end = Some 4.5, seg_text = str ''hola''\<rparr>,
                  \<lparr>seg_start = Some 302, seg_end = Some 304.5, seg_text = str ''hola''\<rparr>],
      run_calls = [(Chunk_wav 0 0 300000,
                     Some \<lparr>d_text = Some [], d_language = Some (str ''es''),
                           d_segments = Some [], d_extra = []\<rparr>),
                   (Chunk_wav 1 300000 600001,
                     Some \<lparr>d_text = Some (str ''hola''), d_language = Some (str ''es''),
                           d_segments = Some [0], d_extra = []\<rparr>)],
      run_slices = [(0, 300000), (300000, 600001)]\<rparr>"
proof -
  have size: "WHISPER_API_LIMIT_BYTES < st_size wav_two_chunks"
    by (simp add: wav_two_chunks_def WHISPER_API_LIMIT_BYTES_def)
  have dur: "from_wav wav_two_chunks = Some 600001"
    by (simp add: wav_two_chunks_def)
  have two: "(2::nat) = Suc (Suc 0)"
    by simp
  have "transcribir_wav_con_chunking_opcional wav_two_chunks forzar =
        (let st = chunk_loop wav_two_chunks 2 300000 600001 (Suc (Suc 0))
         in \<lparr>result = Some \<lparr>d_text = Some (strip (all_text st)),
                             d_language = Some (last_successful_lang st),
                             d_segments = Some (all_segments st), d_extra = []\<rparr>,
             run_objs = objs st, run_calls = calls st, run_slices = slices st\<rparr>)"
    using run_chunked [of forzar wav_two_chunks 600001] size dur
    by (simp add: num_chunks_two Let_def two [symmetric] two_chunks_loop_2 [unfolded two [symmetric]])
  then show ?thesis
    by (simp add: two_chunks_loop_2 Let_def strip_def isspace_def str_def)
qed

lemma run_wav_empty:
  "transcribir_wav_con_chunking_opcional wav_empty True =
     \<lparr>result = None, run_objs = [], run_calls = [], run_slices = []\<rparr>"
proof -
  have "num_chunks_of (st_size wav_empty) = 1"
    by (simp add: wav_empty_def num_chunks_of_def WHISPER_API_LIMIT_BYTES_def)
  then show ?thesis
    using run_too_short [of True wav_empty 0]
    by (simp add: wav_empty_def)
qed

lemma run_wav_silent:
  "transcribir_wav_con_chunking_opcional wav_silent True =
     \<lparr>result = Some \<lparr>d_text = Some [], d_language = Some (str ''es''),
                      d_segments = Some [], d_extra = []\<rparr>,
      run_objs = [],
      run_calls = [(Chunk_wav 0 0 5000,
                     Some \<lparr>d_text = Some [], d_language = Some (str ''es''),
                           d_segments = Some [], d_extra = []\<rparr>)],
      run_slices = [(0, 5000)]\<rparr>"
proof -
  have n: "num_chunks_of (st_size wav_silent) = Suc 0"
    by (simp add: wav_silent_def num_chunks_of_def WHISPER_API_LIMIT_BYTES_def)
  have dur: "from_wav wav_silent = Some 5000"
    by (simp add: wav_silent_def)
  have loop: "chunk_loop wav_silent (Suc 0) 5000 5000 (Suc 0) =
     \<lparr>all_text = [32], all_segments = [], last_successful_lang = str ''es'', objs = [],
      calls = [(Chunk_wav 0 0 5000,
                 Some \<lparr>d_text = Some [], d_language = Some (str ''es''),
                       d_segments = Some [], d_extra = []\<rparr>)],
      slices = [(0, 5000)]\<rparr>"
    by (simp add: chunk_loop_Suc chunk_loop_0 chunk_step_eq chunk_bounds_def wav_silent_def
        initial_state_def truthy_def get_text_def to_dict_def segments_of_def)
  show ?thesis
    using run_chunked [of True wav_silent 5000] dur
    by (simp add: n loop Let_def strip_def isspace_def)
qed

subsection \<open>The text and the result of a chunked run\<close>

lemma map_filter_all_None:
  assumes "\<forall>x\<in>set xs. f x = None"
  shows "List.map_filter f xs = []"
  using assms by (simp add: List.map_filter_def filter_empty_conv)

lemma chunk_success_None_iff:
  "chunk_success w i = None \<longleftrightarrow>
     \<not> export_chunk w i \<or> api_chunk w i = None \<or> (\<exists>r. api_chunk w i = Some r \<and> \<not> truthy r)"
  by (auto simp: chunk_success_def split: option.splits)

lemma chunked_result:
  assumes "forzar \<or> WHISPER_API_LIMIT_BYTES < st_size w" and "from_wav w = Some dur"
    and "num_chunks_of (st_size w) \<le> dur"
  shows "map get_text (successes (run_calls (transcribir_wav_con_chunking_opcional w forzar))) =
           map get_text (List.map_filter (chunk_success w) [0 ..< num_chunks_of (st_size w)])"
    and "successes (run_calls (transcribir_wav_con_chunking_opcional w forzar)) = [] \<Longrightarrow>
           result (transcribir_wav_con_chunking_opcional w forzar) = None"
    and "successes (run_calls (transcribir_wav_con_chunking_opcional w forzar)) \<noteq> [] \<Longrightarrow>
           \<exists>d. result (transcribir_wav_con_chunking_opcional w forzar) = Some d
             \<and> d_text d = Some (strip (space_joined (map get_text
                   (successes (run_calls (transcribir_wav_con_chunking_opcional w forzar))))))"
proof -
  define n where "n = num_chunks_of (st_size w)"
  define st where "st = chunk_loop w n (dur div n) dur n"
  have n: "0 < n" by (simp add: n_def num_chunks_of_pos)
  have cd: "0 < dur div n" using assms(3) n by (simp add: n_def div_greater_zero_iff)
  have fit: "n * (dur div n) \<le> dur" by simp
  have run: "transcribir_wav_con_chunking_opcional w forzar =
      (if all_text st = [] then
         \<lparr>result = None, run_objs = objs st, run_calls = calls st, run_slices = slices st\<rparr>
       else
         \<lparr>result = Some \<lparr>d_text = Some (strip (all_text st)),
                          d_language = Some (last_successful_lang st),
                          d_segments = Some (all_segments st), d_extra = []\<rparr>,
          run_objs = objs st, run_calls = calls st, run_slices = slices st\<rparr>)"
    using run_chunked [OF assms] by (simp add: n_def st_def Let_def)
  have calls: "run_calls (transcribir_wav_con_chunking_opcional w forzar) = calls st"
    unfolding run by simp
  have res: "result (transcribir_wav_con_chunking_opcional w forzar) =
      (if all_text st = [] then None
       else Some \<lparr>d_text = Some (strip (all_text st)),
                   d_language = Some (last_successful_lang st),
                   d_segments = Some (all_segments st), d_extra = []\<rparr>)"
    unfolding run by simp
  have acc: "all_text st = concat (map (\<lambda>t. t @ [32]) (map get_text (successes (calls st))))"
    unfolding st_def by (simp add: all_text_chunk_loop [of w n "dur div n" dur n] comp_def)
  show "map get_text (successes (run_calls (transcribir_wav_con_chunking_opcional w forzar))) =
           map get_text (List.map_filter (chunk_success w) [0 ..< num_chunks_of (st_size w)])"
    unfolding calls st_def n_def [symmetric]
    by (rule successes_chunk_loop [OF cd fit]) simp
  show "result (transcribir_wav_con_chunking_opcional w forzar) = None"
    if "successes (run_calls (transcribir_wav_con_chunking_opcional w forzar)) = []"
  proof -
    have "successes (calls st) = []" using that by (simp only: calls)
    then have "all_text st = []" by (simp add: acc)
    then show ?thesis by (simp add: res)
  qed
  show "\<exists>d. result (transcribir_wav_con_chunking_opcional w forzar) = Some d
             \<and> d_text d = Some (strip (space_joined (map get_text
                   (successes (run_calls (transcribir_wav_con_chunking_opcional w forzar))))))"
    if "successes (run_calls (transcribir_wav_con_chunking_opcional w forzar)) \<noteq> []"
  proof -
    have ne: "map get_text (successes (calls st)) \<noteq> []"
      using that by (simp add: calls)
    have joined: "all_text st = space_joined (map get_text (successes (calls st))) @ [32]"
      using concat_space_joined [OF ne] acc by simp
    then have "all_text st \<noteq> []" by simp
    moreover have "strip (all_text st) = strip (space_joined (map get_text (successes (calls st))))"
      unfolding joined by (rule strip_snoc_space [OF isspace_32])
    ultimately show ?thesis
      by (simp add: res calls)
  qed
qed

lemma not_chunked_no_calls:
  assumes "forzar \<or> WHISPER_API_LIMIT_BYTES < st_size w"
    and "from_wav w = None \<or> (\<exists>dur. from_wav w = Some dur \<and> dur < num_chunks_of (st_size w))"
  shows "transcribir_wav_con_chunking_opcional w forzar =
           \<lparr>result = None, run_objs = [], run_calls = [], run_slices = []\<rparr>"
  using assms run_not_loaded run_too_short by blast

lemma map_filter_nonempty:
  assumes "x \<in> set xs" and "f x \<noteq> None"
  shows "List.map_filter f xs \<noteq> []"
  using assms by (auto simp: List.map_filter_def filter_empty_conv)

subsection \<open>The store: copies are re-based, originals are untouched\<close>

lemma call_rebased_mono:
  assumes "call_rebased w h combined i s d"
  shows "call_rebased w (h @ ext) (combined @ new) i s d"
proof -
  from assms obtain r as where r: "api_chunk w i = Some r"
    and segs: "d_segments d = map_option (\<lambda>_. as) (d_segments r)"
    and len: "length as = length (segments_of r)"
    and cells: "\<forall>j<length as.
              as ! j < length h \<and> h ! (as ! j) = segments_of r ! j
              \<and> (\<exists>b\<in>set combined.
                    b < length h \<and> b \<notin> set as
                    \<and> h ! b = rebased (real s / 1000) (segments_of r ! j))"
    unfolding call_rebased_def by blast
  have "\<forall>j<length as.
              as ! j < length (h @ ext) \<and> (h @ ext) ! (as ! j) = segments_of r ! j
              \<and> (\<exists>b\<in>set (combined @ new).
                    b < length (h @ ext) \<and> b \<notin> set as
                    \<and> (h @ ext) ! b = rebased (real s / 1000) (segments_of r ! j))"
  proof (intro allI impI)
    fix j assume "j < length as"
    with cells obtain b where a: "as ! j < length h" "h ! (as ! j) = segments_of r ! j"
      and b: "b \<in> set combined" "b < length h" "b \<notin> set as"
        "h ! b = rebased (real s / 1000) (segments_of r ! j)"
      by blast
    show "as ! j < length (h @ ext) \<and> (h @ ext) ! (as ! j) = segments_of r ! j
              \<and> (\<exists>b\<in>set (combined @ new).
                    b < length (h @ ext) \<and> b \<notin> set as
                    \<and> (h @ ext) ! b = rebased (real s / 1000) (segments_of r ! j))"
      using a b by (auto simp: nth_append)
  qed
  with r segs len show ?thesis
    unfolding call_rebased_def by blast
qed

lemma call_rebased_fresh:
  assumes "api_chunk w i = Some r"
  shows "call_rebased w
           (h @ segments_of r @ map (rebased (real s / 1000)) (segments_of r))
           (combined @ [length h + length (segments_of r) ..<
                        length h + length (segments_of r) + length (segments_of r)])
           i s (snd (to_dict h r))"
proof -
  define segs where "segs = segments_of r"
  define as where "as = [length h ..< length h + length segs]"
  have d: "d_segments (snd (to_dict h r)) = map_option (\<lambda>_. as) (d_segments r)"
    by (simp add: to_dict_fields as_def segs_def segments_of_def split: option.split)
  have len: "length as = length segs" by (simp add: as_def)
  have "as ! j < length (h @ segs @ map (rebased (real s / 1000)) segs)
        \<and> (h @ segs @ map (rebased (real s / 1000)) segs) ! (as ! j) = segs ! j
        \<and> (\<exists>b\<in>set (combined @ [length h + length segs ..< length h + length segs + length segs]).
              b < length (h @ segs @ map (rebased (real s / 1000)) segs) \<and> b \<notin> set as
              \<and> (h @ segs @ map (rebased (real s / 1000)) segs) ! b = rebased (real s / 1000) (segs ! j))"
    if "j < length as" for j
  proof -
    have j: "j < length segs" using that by (simp add: as_def)
    have a: "as ! j = length h + j" using j by (simp add: as_def)
    have c1: "as ! j < length (h @ segs @ map (rebased (real s / 1000)) segs)"
      using j by (simp add: a)
    have c2: "(h @ segs @ map (rebased (real s / 1000)) segs) ! (as ! j) = segs ! j"
      using j by (simp add: a nth_append)
    have b1: "(h @ segs @ map (rebased (real s / 1000)) segs) ! (length h + length segs + j) =
                   rebased (real s / 1000) (segs ! j)"
      using j by (simp add: nth_append)
    have b2: "length h + length segs + j \<in>
                   set (combined @ [length h + length segs ..< length h + length segs + length segs])"
      using j by simp
    have b3: "length h + length segs + j \<notin> set as"
      by (simp add: as_def)
    have b4: "length h + length segs + j < length (h @ segs @ map (rebased (real s / 1000)) segs)"
      using j by simp
    have "\<exists>b\<in>set (combined @ [length h + length segs ..< length h + length segs + length segs]).
              b < length (h @ segs @ map (rebased (real s / 1000)) segs) \<and> b \<notin> set as
              \<and> (h @ segs @ map (rebased (real s / 1000)) segs) ! b = rebased (real s / 1000) (segs ! j)"
      using b1 b2 b3 b4 by (intro bexI [of _ "length h + length segs + j"] conjI)
    with c1 c2 show ?thesis by (intro conjI)
  qed
  then have cells: "\<forall>j<length as.
        as ! j < length (h @ segs @ map (rebased (real s / 1000)) segs)
        \<and> (h @ segs @ map (rebased (real s / 1000)) segs) ! (as ! j) = segs ! j
        \<and> (\<exists>b\<in>set (combined @ [length h + length segs ..< length h + length segs + length segs]).
              b < length (h @ segs @ map (rebased (real s / 1000)) segs) \<and> b \<notin> set as
              \<and> (h @ segs @ map (rebased (real s / 1000)) segs) ! b = rebased (real s / 1000) (segs ! j))"
    by (intro allI impI)
  show ?thesis
    unfolding call_rebased_def
    by (intro exI [of _ r] exI [of _ as] conjI assms d len [unfolded segs_def]
        cells [unfolded segs_def])
qed

lemma calls_rebased_extend:
  assumes "calls_rebased w cd st"
    and "objs st' = objs st @ ext" and "all_segments st' = all_segments st @ new"
    and "set (calls st') \<subseteq> set (calls st) \<union> {c}"
    and "\<And>i s e d. c = (Chunk_wav i s e, Some d) \<Longrightarrow> truthy d \<Longrightarrow>
           s = i * cd \<and> call_rebased w (objs st') (all_segments st') i s d"
  shows "calls_rebased w cd st'"
  unfolding calls_rebased_def
proof (intro allI impI)
  fix i s e d
  assume mem: "(Chunk_wav i s e, Some d) \<in> set (calls st')" and t: "truthy d"
  show "s = i * cd \<and> call_rebased w (objs st') (all_segments st') i s d"
  proof (cases "(Chunk_wav i s e, Some d) \<in> set (calls st)")
    case True
    then have "s = i * cd" and "call_rebased w (objs st) (all_segments st) i s d"
      using assms(1) t unfolding calls_rebased_def by blast+
    then show ?thesis
      using call_rebased_mono [of w "objs st" "all_segments st" i s d ext new]
      by (simp add: assms(2,3))
  next
    case False
    then have "c = (Chunk_wav i s e, Some d)"
      using mem assms(4) by blast
    then show ?thesis using assms(5) t by blast
  qed
qed

lemma calls_rebased_same:
  assumes "calls_rebased w cd st"
    and "objs st' = objs st" and "all_segments st' = all_segments st"
    and "set (calls st') \<subseteq> set (calls st) \<union> {c}"
    and "\<And>i s e d. c = (Chunk_wav i s e, Some d) \<Longrightarrow> \<not> truthy d"
  shows "calls_rebased w cd st'"
  using calls_rebased_extend [of w cd st st' "[]" "[]" c] assms by auto

lemma calls_rebased_step:
  assumes "calls_rebased w cd st"
  shows "calls_rebased w cd (chunk_step w n cd dur st k)"
proof -
  define b where "b = chunk_bounds n cd dur k"
  have fst_b: "fst b = k * cd" by (simp add: b_def chunk_bounds_fst)
  show ?thesis
  proof (cases "fst b < snd b \<and> export_chunk w k")
    case False
    then have "objs (chunk_step w n cd dur st k) = objs st"
      "all_segments (chunk_step w n cd dur st k) = all_segments st"
      "calls (chunk_step w n cd dur st k) = calls st"
      by (auto simp: chunk_step_eq Let_def b_def)
    then show ?thesis
      by (intro calls_rebased_same [OF assms, of _ "(Whole_wav, None)"]) auto
  next
    case go: True
    show ?thesis
    proof (cases "api_chunk w k")
      case None
      with go have "objs (chunk_step w n cd dur st k) = objs st"
        "all_segments (chunk_step w n cd dur st k) = all_segments st"
        "calls (chunk_step w n cd dur st k) = calls st @ [(Chunk_wav k (fst b) (snd b), None)]"
        by (simp_all add: chunk_step_eq Let_def b_def)
      then show ?thesis
        by (intro calls_rebased_same [OF assms, of _ "(Chunk_wav k (fst b) (snd b), None)"]) auto
    next
      case (Some r)
      show ?thesis
      proof (cases "truthy r")
        case False
        with go Some have "objs (chunk_step w n cd dur st k) = objs st"
          "all_segments (chunk_step w n cd dur st k) = all_segments st"
          "calls (chunk_step w n cd dur st k) =
             calls st @ [(Chunk_wav k (fst b) (snd b), Some (snd (to_dict (objs st) r)))]"
          by (simp_all add: chunk_step_eq Let_def b_def)
        then show ?thesis
          using False
          by (intro calls_rebased_same [OF assms,
              of _ "(Chunk_wav k (fst b) (snd b), Some (snd (to_dict (objs st) r)))"])
            (auto simp: truthy_to_dict)
      next
        case True
        with go Some have o: "objs (chunk_step w n cd dur st k) =
             objs st @ (segments_of r @ map (rebased (real (fst b) / 1000)) (segments_of r))"
          and a: "all_segments (chunk_step w n cd dur st k) =
             all_segments st @ [length (objs st) + length (segments_of r) ..<
                         length (objs st) + length (segments_of r) + length (segments_of r)]"
          and c: "calls (chunk_step w n cd dur st k) =
             calls st @ [(Chunk_wav k (fst b) (snd b), Some (snd (to_dict (objs st) r)))]"
          by (simp_all add: chunk_step_eq Let_def b_def)
        have fresh: "call_rebased w (objs (chunk_step w n cd dur st k))
            (all_segments (chunk_step w n cd dur st k)) k (fst b) (snd (to_dict (objs st) r))"
          unfolding o a using call_rebased_fresh [OF Some, of "objs st" "fst b" "all_segments st"]
          by simp
        show ?thesis
        proof (rule calls_rebased_extend [OF assms o a])
          show "set (calls (chunk_step w n cd dur st k)) \<subseteq>
                set (calls st) \<union> {(Chunk_wav k (fst b) (snd b), Some (snd (to_dict (objs st) r)))}"
            by (simp add: c)
        next
          fix i s e d
          assume "(Chunk_wav k (fst b) (snd b), Some (snd (to_dict (objs st) r))) =
                  (Chunk_wav i s e, Some d)"
          then have "i = k" "s = fst b" "d = snd (to_dict (objs st) r)"
            by simp_all
          then show "s = i * cd \<and> call_rebased w (objs (chunk_step w n cd dur st k))
                       (all_segments (chunk_step w n cd dur st k)) i s d"
            using fresh fst_b by simp
        qed
      qed
    qed
  qed
qed

lemma calls_rebased_loop: "calls_rebased w cd (chunk_loop w n cd dur k)"
proof (induction k)
  case 0
  show ?case by (simp add: chunk_loop_0 initial_state_def calls_rebased_def)
next
  case (Suc k)
  then show ?case by (simp add: chunk_loop_Suc calls_rebased_step)
qed

lemma run_direct_calls:
  assumes "\<not> forzar" and "st_size w \<le> WHISPER_API_LIMIT_BYTES"
  shows "\<exists>r. run_calls (transcribir_wav_con_chunking_opcional w forzar) = [(Whole_wav, r)]"
  using assms
  by (auto simp: transcribir_wav_con_chunking_opcional_def split: prod.splits)

lemma successes_member:
  assumes "(q, Some d) \<in> set cs" and "truthy d"
  shows "d \<in> set (successes cs)"
  using assms by (induction cs rule: successes.induct) auto

section \<open>The loop over the turns\<close>

lemma texto_de_nonempty_iff:
  "texto_de r \<noteq> [] \<longleftrightarrow> (\<exists>d tx. r = Some d \<and> d_text d = Some tx \<and> tx \<noteq> [] \<and> texto_de r = tx)"
  by (auto simp: texto_de_def split: option.splits)

lemma procesar_turno_skip:
  assumes "duracion_ms t < 100"
  shows "procesar_turno env st (i, t) = st"
  using assms by (simp add: procesar_turno_def duracion_ms_def Let_def)

lemma texto_procesar_turno:
  "texto_diarizado_final (procesar_turno env st (i, t)) =
     texto_diarizado_final st @ linea_turno env i t"
  by (simp add: procesar_turno_def linea_turno_def duracion_ms_def Let_def)

lemma texto_turnos:
  "texto_diarizado_final (foldl (procesar_turno env) st its) =
     texto_diarizado_final st @ concat (map (\<lambda>(i, t). linea_turno env i t) its)"
  by (induction its arbitrary: st) (auto simp: texto_procesar_turno)

lemma events_procesar_turno:
  "set (events (procesar_turno env st (i, t))) \<subseteq>
     set (events st) \<union>
       (if duracion_ms t < 100 then {}
        else {Extraer i (py_int (times_int (turn_start t) 1000)) (py_int (times_int (turn_end t) 1000)),
              Transcribir (Turn_wav i) False})"
  by (auto simp: procesar_turno_def duracion_ms_def Let_def)

lemma events_turnos:
  assumes "ev \<in> set (events (foldl (procesar_turno env) st its))"
  shows "ev \<in> set (events st) \<or>
         (\<exists>(i, t)\<in>set its. \<not> duracion_ms t < 100 \<and>
            (ev = Extraer i (py_int (times_int (turn_start t) 1000)) (py_int (times_int (turn_end t) 1000))
             \<or> ev = Transcribir (Turn_wav i) False))"
  using assms
proof (induction its arbitrary: st)
  case Nil
  then show ?case by simp
next
  case (Cons it its)
  obtain i t where it: "it = (i, t)" by (cases it)
  from Cons.prems have "ev \<in> set (events (foldl (procesar_turno env) (procesar_turno env st (i, t)) its))"
    by (simp add: it)
  then have "ev \<in> set (events (procesar_turno env st (i, t))) \<or>
         (\<exists>(i, t)\<in>set its. \<not> duracion_ms t < 100 \<and>
            (ev = Extraer i (py_int (times_int (turn_start t) 1000)) (py_int (times_int (turn_end t) 1000))
             \<or> ev = Transcribir (Turn_wav i) False))"
    by (rule Cons.IH)
  then show ?case
    using events_procesar_turno [of env st i t] by (auto simp: it split: if_splits)
qed

lemma procesar_archivo_diarized:
  assumes "is_file env" and "convertir_a_wav env" and "from_wav_ok env"
    and "diarizar_audio env = Some turns"
  shows "procesar_archivo env dir_salida ruta_audio =
     (let st = foldl (procesar_turno env) \<lparr>texto_diarizado_final = [], events = []\<rparr>
                 (enumerate 0 turns)
      in \<lparr>texto_final = texto_diarizado_final st, file_events = events st,
          written = (if texto_diarizado_final st \<noteq> []
                     then guardar_transcripcion (open_ok env) (texto_diarizado_final st)
                            (joinpath dir_salida (path_stem ruta_audio))
                     else [])\<rparr>)"
  using assms by (simp add: procesar_archivo_def Let_def)

lemma procesar_archivo_skipped:
  assumes "\<not> (is_file env \<and> convertir_a_wav env \<and> from_wav_ok env)"
  shows "procesar_archivo env dir_salida ruta_audio = skipped"
  using assms by (auto simp: procesar_archivo_def Let_def)

lemma procesar_archivo_fallback:
  assumes "is_file env" and "convertir_a_wav env" and "from_wav_ok env"
    and "diarizar_audio env = None"
  shows "procesar_archivo env dir_salida ruta_audio =
     (let st = transcribir_sin_hablantes env
      in \<lparr>texto_final = texto_diarizado_final st, file_events = events st,
          written = (if texto_diarizado_final st \<noteq> []
                     then guardar_transcripcion (open_ok env) (texto_diarizado_final st)
                            (joinpath dir_salida (path_stem ruta_audio))
                     else [])\<rparr>)"
  using assms by (simp add: procesar_archivo_def Let_def)

lemma error_placeholder_nonempty: "error_placeholder \<noteq> []"
  by (simp add: error_placeholder_def)

lemma concat_all_empty:
  assumes "\<forall>x\<in>set xs. x = []"
  shows "concat xs = []"
  using assms by (induction xs) auto

lemma concat_filter_nonempty: "concat (filter (\<lambda>l. l \<noteq> []) xs) = concat xs"
  by (induction xs) auto

subsection \<open>The pipeline on the example files\<close>

lemma texto_wav_small:
  "texto_de (result (transcribir_wav_con_chunking_opcional wav_small False)) = str ''  hola ''"
  by (simp add: transcribir_wav_con_chunking_opcional_def wav_small_def WHISPER_API_LIMIT_BYTES_def
      transcribir_chunk_whisper_def to_dict_def texto_de_def)

lemma texto_wav_100ms:
  "texto_de (result (transcribir_wav_con_chunking_opcional wav_100ms False)) = str ''hola''"
  by (simp add: transcribir_wav_con_chunking_opcional_def wav_100ms_def WHISPER_API_LIMIT_BYTES_def
      transcribir_chunk_whisper_def to_dict_def texto_de_def)

lemma texto_wav_small_silent:
  "texto_de (result (transcribir_wav_con_chunking_opcional wav_small_silent False)) = []"
  by (simp add: transcribir_wav_con_chunking_opcional_def wav_small_silent_def
      WHISPER_API_LIMIT_BYTES_def transcribir_chunk_whisper_def to_dict_def texto_de_def)

lemma texto_wav_small_error:
  "texto_de (result (transcribir_wav_con_chunking_opcional wav_small_error False)) = []"
  by (simp add: transcribir_wav_con_chunking_opcional_def wav_small_error_def
      WHISPER_API_LIMIT_BYTES_def transcribir_chunk_whisper_def texto_de_def)

text \<open>
  The times of the example turns in whole milliseconds. The products of the doubles 5.05,
  0.0009, 0.1 and 0.6 with 1000 have 62 or 63 binary digits and are rounded to 53.
\<close>

lemma bit_length_products:
  "bit_length 5685794529555251000 = 63"
  "bit_length 4150517416584649000 = 62"
  "bit_length 3602879701896397000 = 62"
  "bit_length 5404319552844595000 = 63"
  by (simp_all add: bit_length.simps)

lemma bit_length_small:
  "bit_length 0 = 0"
  "bit_length 1000 = 10"
  "bit_length 5000 = 13"
  "bit_length 6000 = 13"
  "bit_length 40000 = 16"
  by (simp_all add: bit_length.simps)

lemma ms_three_turns:
  "py_int (times_int (Double 0 0) 1000) = 0"
  "py_int (times_int (Double 5 0) 1000) = 5000"
  "py_int (times_int (Double 5685794529555251 (- 50)) 1000) = 5050"
  "py_int (times_int (Double 6 0) 1000) = 6000"
  "py_int (times_int (Double 40 0) 1000) = 40000"
  by (simp_all add: times_int_def nearest_double_def bit_length_products bit_length_small
      round_half_even_def py_int_def Let_def)

lemma ms_turn_99ms:
  "py_int (times_int (Double 4150517416584649 (- 62)) 1000) = 0"
  "py_int (times_int (Double 3602879701896397 (- 55)) 1000) = 100"
  by (simp_all add: times_int_def nearest_double_def bit_length_products bit_length_small
      round_half_even_def py_int_def Let_def)

lemma ms_turn_half_second:
  "py_int (times_int (Double 1 (- 1)) 1000) = 500"
  "py_int (times_int (Double 5404319552844595 (- 53)) 1000) = 600"
  by (simp_all add: times_int_def nearest_double_def bit_length_products bit_length_small
      round_half_even_def py_int_def Let_def)

lemma duracion_three_turns:
  "duracion_ms (three_turns ! 0) = 5000"
  "duracion_ms (three_turns ! Suc 0) = 50"
  "duracion_ms (three_turns ! 2) = 34000"
  by (simp_all add: three_turns_def duracion_ms_def ms_three_turns)

lemma duracion_turn_99ms: "duracion_ms turn_99ms = 100"
  by (simp add: turn_99ms_def duracion_ms_def ms_turn_99ms)

text \<open>
  The turn from 0.5 s to 0.6 s measures 100 ms and is kept, although the double 0.6 is
  below six tenths: the product with 1000 is rounded up to 600 before it is truncated.
\<close>

lemma duracion_turn_half_second:
  "duracion_ms turn_half_second = 100"
  "value_of (turn_end turn_half_second) - value_of (turn_start turn_half_second) < 1 / 10"
  by (simp_all add: turn_half_second_def duracion_ms_def ms_turn_half_second value_of_def)

lemma seconds_turn_99ms:
  "(value_of (turn_end turn_99ms) - value_of (turn_start turn_99ms)) * 1000 < 100"
  by (simp add: turn_99ms_def value_of_def)

lemma run_env_99ms:
  "file_events (procesar_archivo env_99ms dir_salida ruta_audio) =
     [Extraer 0 0 100, Transcribir (Turn_wav 0) False]"
  "texto_final (procesar_archivo env_99ms dir_salida ruta_audio) =
     str ''SPEAKER_00: hola'' @ [10]"
proof -
  have env: "is_file env_99ms" "convertir_a_wav env_99ms" "from_wav_ok env_99ms"
    "diarizar_audio env_99ms = Some [turn_99ms]"
    by (simp_all add: env_99ms_def)
  have t: "turn_start turn_99ms = Double 4150517416584649 (- 62)"
    "turn_end turn_99ms = Double 3602879701896397 (- 55)"
    "speaker turn_99ms = str ''SPEAKER_00''"
    by (simp_all add: turn_99ms_def)
  have w: "turn_wav (turnos env_99ms 0) = wav_100ms" "slice_ok (turnos env_99ms 0)"
    "export_ok (turnos env_99ms 0)"
    by (simp_all add: env_99ms_def)
  have st: "procesar_turno env_99ms \<lparr>texto_diarizado_final = [], events = []\<rparr> (0, turn_99ms) =
      \<lparr>texto_diarizado_final = str ''SPEAKER_00'' @ str '': '' @ str ''hola'' @ [10],
       events = [Extraer 0 0 100, Transcribir (Turn_wav 0) False]\<rparr>"
    by (simp add: procesar_turno_def Let_def t w ms_turn_99ms texto_wav_100ms)
      (simp add: str_def)
  have run: "procesar_archivo env_99ms dir_salida ruta_audio =
     (let st = procesar_turno env_99ms \<lparr>texto_diarizado_final = [], events = []\<rparr> (0, turn_99ms)
      in \<lparr>texto_final = texto_diarizado_final st, file_events = events st,
          written = (if texto_diarizado_final st \<noteq> []
                     then guardar_transcripcion (open_ok env_99ms) (texto_diarizado_final st)
                            (joinpath dir_salida (path_stem ruta_audio))
                     else [])\<rparr>)"
    by (simp add: procesar_archivo_diarized [OF env] Let_def)
  show "file_events (procesar_archivo env_99ms dir_salida ruta_audio) =
     [Extraer 0 0 100, Transcribir (Turn_wav 0) False]"
    unfolding run st by (simp add: Let_def)
  show "texto_final (procesar_archivo env_99ms dir_salida ruta_audio) =
     str ''SPEAKER_00: hola'' @ [10]"
    unfolding run st by (simp add: Let_def) (simp add: str_def)
qed

lemma enumerate_three_turns:
  "enumerate 0 three_turns = [(0, three_turns ! 0), (Suc 0, three_turns ! Suc 0), (2, three_turns ! 2)]"
  by (simp add: three_turns_def)

lemma lineas_env_diarized:
  "linea_turno env_diarized 0 (three_turns ! 0) = str ''SPEAKER_00:   hola '' @ [10]"
  "linea_turno env_diarized (Suc 0) (three_turns ! Suc 0) = []"
  "linea_turno env_diarized 2 (three_turns ! 2) = []"
  by (simp_all add: linea_turno_def duracion_three_turns env_diarized_def texto_wav_small
      texto_wav_small_silent)
    (simp add: three_turns_def str_def)

lemma texto_env_diarized:
  "texto_final (procesar_archivo env_diarized dir_text (str ''reunion.mp3'')) =
     str ''SPEAKER_00:   hola '' @ [10]"
proof -
  have "diarizar_audio env_diarized = Some three_turns" "is_file env_diarized"
    "convertir_a_wav env_diarized" "from_wav_ok env_diarized"
    by (simp_all add: env_diarized_def)
  then have "texto_final (procesar_archivo env_diarized dir_text (str ''reunion.mp3'')) =
        texto_diarizado_final (foldl (procesar_turno env_diarized)
          \<lparr>texto_diarizado_final = [], events = []\<rparr> (enumerate 0 three_turns))"
    by (simp add: procesar_archivo_diarized [of env_diarized three_turns] Let_def
        del: foldl.simps)
  also have "\<dots> = str ''SPEAKER_00:   hola '' @ [10]"
    unfolding texto_turnos enumerate_three_turns by (simp add: lineas_env_diarized)
  finally show ?thesis .
qed

lemma texto_wav_two_chunks:
  "texto_de (result (transcribir_wav_con_chunking_opcional wav_two_chunks True)) = str ''hola''"
  by (simp add: run_two_chunks texto_de_def)

lemma texto_env_fallback:
  "texto_final (procesar_archivo env_fallback dir_salida ruta_audio) = str ''SPEAKER_?: hola'' @ [10]"
proof -
  have "is_file env_fallback" "convertir_a_wav env_fallback" "from_wav_ok env_fallback"
    "diarizar_audio env_fallback = None" "ruta_wav env_fallback = wav_two_chunks"
    by (simp_all add: env_fallback_def)
  then have "texto_final (procesar_archivo env_fallback dir_salida ruta_audio) =
             str ''SPEAKER_?: '' @ str ''hola'' @ [10]"
    by (simp add: procesar_archivo_fallback Let_def transcribir_sin_hablantes_def
        texto_wav_two_chunks) (simp add: str_def)
  then show ?thesis by (simp add: str_def)
qed

lemma written_env_fallback:
  "written (procesar_archivo env_fallback dir_salida ruta_audio) =
     [(with_suffix (Path dir_salida (path_stem ruta_audio)) (str ''.diarized.txt''),
       encode_latin1_ignore (str ''SPEAKER_?: hola'' @ [10]))]"
proof -
  have env: "is_file env_fallback" "convertir_a_wav env_fallback" "from_wav_ok env_fallback"
    "diarizar_audio env_fallback = None" "open_ok env_fallback"
    by (simp_all add: env_fallback_def)
  have "texto_diarizado_final (transcribir_sin_hablantes env_fallback) = str ''SPEAKER_?: hola'' @ [10]"
    using texto_env_fallback [of dir_salida ruta_audio] env
    by (simp add: procesar_archivo_fallback Let_def)
  then show ?thesis
    using env by (simp add: procesar_archivo_fallback Let_def guardar_transcripcion_def joinpath_def)
qed

lemma result_wav_all_fail:
  "result (transcribir_wav_con_chunking_opcional wav_all_fail True) = None"
proof -
  have dur: "from_wav wav_all_fail = Some 600000"
    and n: "num_chunks_of (st_size wav_all_fail) = 2"
    by (simp_all add: wav_all_fail_def num_chunks_of_def WHISPER_API_LIMIT_BYTES_def)
  have fit: "num_chunks_of (st_size wav_all_fail) \<le> 600000"
    by (simp add: n)
  have "\<forall>i\<in>set [0 ..< num_chunks_of (st_size wav_all_fail)]. chunk_success wav_all_fail i = None"
    by (simp add: chunk_success_None_iff wav_all_fail_def)
  then have "List.map_filter (chunk_success wav_all_fail) [0 ..< num_chunks_of (st_size wav_all_fail)] = []"
    by (rule map_filter_all_None)
  then have "successes (run_calls (transcribir_wav_con_chunking_opcional wav_all_fail True)) = []"
    using chunked_result(1) [OF disjI1 [OF TrueI] dur fit] by simp
  then show ?thesis
    by (rule chunked_result(2) [OF disjI1 [OF TrueI] dur fit])
qed

lemma texto_env_fallback_error:
  "texto_final (procesar_archivo env_fallback_error dir_salida ruta_audio) =
     str ''SPEAKER_?: [Error en transcripci'' @ [243] @ str ''n completa]'' @ [10]"
proof -
  have "is_file env_fallback_error" "convertir_a_wav env_fallback_error"
    "from_wav_ok env_fallback_error" "diarizar_audio env_fallback_error = None"
    "ruta_wav env_fallback_error = wav_all_fail"
    by (simp_all add: env_fallback_error_def)
  then show ?thesis
    by (simp add: procesar_archivo_fallback Let_def transcribir_sin_hablantes_def
        result_wav_all_fail texto_de_def error_placeholder_def)
qed

lemma written_env_fallback_error:
  "written (procesar_archivo env_fallback_error dir_salida ruta_audio) =
     [(with_suffix (Path dir_salida (path_stem ruta_audio)) (str ''.diarized.txt''),
       encode_latin1_ignore
         (str ''SPEAKER_?: [Error en transcripci'' @ [243] @ str ''n completa]'' @ [10]))]"
proof -
  have env: "is_file env_fallback_error" "convertir_a_wav env_fallback_error"
    "from_wav_ok env_fallback_error" "diarizar_audio env_fallback_error = None"
    "open_ok env_fallback_error"
    by (simp_all add: env_fallback_error_def)
  have "texto_diarizado_final (transcribir_sin_hablantes env_fallback_error) =
      str ''SPEAKER_?: [Error en transcripci'' @ [243] @ str ''n completa]'' @ [10]"
    using texto_env_fallback_error [of dir_salida ruta_audio] env
    by (simp add: procesar_archivo_fallback Let_def)
  then show ?thesis
    using env by (simp add: procesar_archivo_fallback Let_def guardar_transcripcion_def joinpath_def)
qed

lemma stem_reunion: "path_stem (str ''reunion.mp3'') = str ''reunion''"
  by (simp add: path_stem_def str_def)

lemma with_suffix_reunion:
  "with_suffix (Path dir (str ''reunion'')) (str ''.diarized.txt'') =
     Path dir (str ''reunion.diarized.txt'')"
  by (simp add: with_suffix_def path_suffix_def str_def)

lemma stem_talk:
  "path_stem (str ''talk.v1.mp3'') = str ''talk.v1''"
  "path_stem (str ''talk.v2.mp3'') = str ''talk.v2''"
  by (simp_all add: path_stem_def str_def)

lemma with_suffix_talk:
  "with_suffix (Path dir (str ''talk.v1'')) (str ''.diarized.txt'') = Path dir (str ''talk.diarized.txt'')"
  "with_suffix (Path dir (str ''talk.v2'')) (str ''.diarized.txt'') = Path dir (str ''talk.diarized.txt'')"
  by (simp_all add: with_suffix_def path_suffix_def str_def)

section \<open>The direct path\<close>

text \<open>
  Claim C2. For every unit whose size is at most the budget of 24 * 1024 * 1024 bytes and
  whose chunking is not forced, the transcriber calls the primitive exactly once, on the
  file itself, takes no slice, and returns what the primitive returned: the store holds
  exactly the objects the primitive created, and the text, the language, the further keys
  and the segments of the result are those of the service's answer, unchanged.
\<close>

theorem direct_dispatch_unmodified:
  assumes "st_size w \<le> WHISPER_API_LIMIT_BYTES" and "\<not> forzar_chunking"
  shows "WHISPER_API_LIMIT_BYTES = 24 * 1024 * 1024
       \<and> run_calls (transcribir_wav_con_chunking_opcional w forzar_chunking) =
           [(Whole_wav, result (transcribir_wav_con_chunking_opcional w forzar_chunking))]
       \<and> run_slices (transcribir_wav_con_chunking_opcional w forzar_chunking) = []
       \<and> (run_objs (transcribir_wav_con_chunking_opcional w forzar_chunking),
          result (transcribir_wav_con_chunking_opcional w forzar_chunking)) =
           transcribir_chunk_whisper [] (api_whole w)
       \<and> (case api_whole w of
            None \<Rightarrow> result (transcribir_wav_con_chunking_opcional w forzar_chunking) = None
          | Some r \<Rightarrow>
              (\<exists>d. result (transcribir_wav_con_chunking_opcional w forzar_chunking) = Some d
                 \<and> d_text d = d_text r \<and> d_language d = d_language r \<and> d_extra d = d_extra r
                 \<and> map_option (map ((!) (run_objs (transcribir_wav_con_chunking_opcional w forzar_chunking))))
                       (d_segments d) = d_segments r))"
  using assms
  by (auto simp: transcribir_wav_con_chunking_opcional_def transcribir_chunk_whisper_def
        to_dict_def map_nth WHISPER_API_LIMIT_BYTES_def split: option.splits prod.splits)

theorem direct_dispatch_unmodified_witness:
  "st_size wav_small \<le> WHISPER_API_LIMIT_BYTES
   \<and> run_calls (transcribir_wav_con_chunking_opcional wav_small False) =
       [(Whole_wav, result (transcribir_wav_con_chunking_opcional wav_small False))]
   \<and> result (transcribir_wav_con_chunking_opcional wav_small False) =
       Some \<lparr>d_text = Some (str ''  hola ''), d_language = Some (str ''es''),
             d_segments = Some [0], d_extra = []\<rparr>
   \<and> run_objs (transcribir_wav_con_chunking_opcional wav_small False) =
       [\<lparr>seg_start = Some 0, seg_end = Some 2.5, seg_text = str ''hola''\<rparr>]"
  using direct_dispatch_unmodified [of wav_small False]
  by (simp add: wav_small_def WHISPER_API_LIMIT_BYTES_def transcribir_chunk_whisper_def to_dict_def)

section \<open>The split into chunks\<close>

text \<open>
  Claim C1, as amended. For every unit whose size exceeds the budget or whose chunking is
  forced, whose audio loads, and whose duration in milliseconds is at least the number of
  chunks \<open>n = max(1, ceil(size / budget))\<close> (as it is for every WAV export of audio that
  is not empty), the slices the transcriber takes are \<open>n\<close> intervals: interval \<open>i\<close>
  starts at \<open>i * (dur div n)\<close>; every interval but the last has length \<open>dur div n\<close> and
  the last has that length plus the remainder \<open>dur mod n\<close>; the first starts at 0, the last
  ends at the total duration, each ends where the next starts, none is empty, no two
  overlap, and their union is \<open>[0, dur)\<close>.
\<close>

theorem chunk_intervals_partition:
  assumes "forzar \<or> WHISPER_API_LIMIT_BYTES < st_size w"
    and "from_wav w = Some dur"
    and "num_chunks_of (st_size w) \<le> dur"
  shows "num_chunks_of (st_size w) = max 1 (nat \<lceil>real (st_size w) / real WHISPER_API_LIMIT_BYTES\<rceil>)
     \<and> (let n = num_chunks_of (st_size w);
            S = run_slices (transcribir_wav_con_chunking_opcional w forzar)
        in length S = n
         \<and> (\<forall>i<n. fst (S ! i) = i * (dur div n))
         \<and> (\<forall>i<n. i + 1 < n \<longrightarrow> snd (S ! i) - fst (S ! i) = dur div n)
         \<and> snd (S ! (n - 1)) - fst (S ! (n - 1)) = dur div n + dur mod n
         \<and> fst (S ! 0) = 0 \<and> snd (S ! (n - 1)) = dur
         \<and> (\<forall>i<n. i + 1 < n \<longrightarrow> snd (S ! i) = fst (S ! (i + 1)))
         \<and> (\<forall>i<n. fst (S ! i) < snd (S ! i))
         \<and> (\<forall>i<n. \<forall>j<n. i < j \<longrightarrow> snd (S ! i) \<le> fst (S ! j))
         \<and> (\<Union>(s, e)\<in>set S. {s ..< e}) = {0 ..< dur})"
proof -
  define n where "n = num_chunks_of (st_size w)"
  define cd where "cd = dur div n"
  define S where "S = run_slices (transcribir_wav_con_chunking_opcional w forzar)"
  have n: "0 < n" by (simp add: n_def num_chunks_of_pos)
  have cd: "0 < cd" using assms(3) n by (simp add: cd_def n_def div_greater_zero_iff)
  have fit: "n * cd \<le> dur" by (simp add: cd_def)
  have "S = slices (chunk_loop w n cd dur n)"
    using run_chunked [OF assms] by (simp add: S_def n_def cd_def Let_def)
  then have S: "S = map (chunk_bounds n cd dur) [0 ..< n]"
    by (simp add: slices_chunk_loop [OF cd fit])
  have nth: "S ! i = chunk_bounds n cd dur i" if "i < n" for i
    using that by (simp add: S)
  have c1: "length S = n" by (simp add: S)
  have c2: "\<forall>i<n. fst (S ! i) = i * cd"
    by (simp add: nth chunk_bounds_fst)
  have c3: "\<forall>i<n. i + 1 < n \<longrightarrow> snd (S ! i) - fst (S ! i) = cd"
    by (simp add: nth chunk_bounds_fst chunk_bounds_snd_inner)
  have c4: "snd (S ! (n - 1)) - fst (S ! (n - 1)) = cd + dur mod n"
    using chunk_bounds_last_length [OF n, of dur] n by (simp add: nth cd_def)
  have c5: "fst (S ! 0) = 0" using n by (simp add: nth chunk_bounds_fst)
  have c6: "snd (S ! (n - 1)) = dur"
    using chunk_bounds_snd_last [OF n] n by (simp add: nth)
  have c7: "\<forall>i<n. i + 1 < n \<longrightarrow> snd (S ! i) = fst (S ! (i + 1))"
    by (simp add: nth chunk_bounds_fst chunk_bounds_snd_inner)
  have c8: "\<forall>i<n. fst (S ! i) < snd (S ! i)"
    using chunk_bounds_nonempty [OF cd fit] by (simp add: nth)
  have c9: "\<forall>i<n. \<forall>j<n. i < j \<longrightarrow> snd (S ! i) \<le> fst (S ! j)"
    using chunk_bounds_disjoint [of _ _ n cd dur] by (simp add: nth)
  have c10: "(\<Union>(s, e)\<in>set S. {s ..< e}) = {0 ..< dur}"
    unfolding S Union_set_map_upt by (rule chunk_bounds_cover [OF cd fit n])
  have c0: "n = max 1 (nat \<lceil>real (st_size w) / real WHISPER_API_LIMIT_BYTES\<rceil>)"
    unfolding n_def by (rule num_chunks_of_max)
  show ?thesis
    using c0 c1 c2 c3 c4 c5 c6 c7 c8 c9 c10
    unfolding Let_def n_def [symmetric] S_def [symmetric] cd_def [symmetric]
    by (intro conjI) 
qed

theorem chunk_intervals_partition_witness:
  "WHISPER_API_LIMIT_BYTES < st_size wav_two_chunks
   \<and> from_wav wav_two_chunks = Some 600001
   \<and> num_chunks_of (st_size wav_two_chunks) = 2
   \<and> run_slices (transcribir_wav_con_chunking_opcional wav_two_chunks False) =
       [(0, 300000), (300000, 600001)]
   \<and> (\<Union>(s, e)\<in>set (run_slices (transcribir_wav_con_chunking_opcional wav_two_chunks False)).
         {s ..< e}) = {0 ..< 600001}"
proof -
  have size: "WHISPER_API_LIMIT_BYTES < st_size wav_two_chunks"
    by (simp add: wav_two_chunks_def WHISPER_API_LIMIT_BYTES_def)
  have dur: "from_wav wav_two_chunks = Some 600001"
    by (simp add: wav_two_chunks_def)
  have fit: "num_chunks_of (st_size wav_two_chunks) \<le> 600001"
    by (simp add: num_chunks_two)
  show ?thesis
    using chunk_intervals_partition [of False wav_two_chunks 600001, OF _ dur fit] size dur
    by (simp add: num_chunks_two run_two_chunks Let_def)
qed

text \<open>
  The claim as stated fails on empty audio, which the whole-file fallback hands over with
  forced chunking: one chunk is called for, its length is 0 and the guard on the chunk
  length applies, so the transcriber takes no slice, calls nothing and fails.
\<close>

theorem chunk_intervals_counterexample:
  "st_size wav_empty = 44
   \<and> from_wav wav_empty = Some 0
   \<and> max 1 (nat \<lceil>real (st_size wav_empty) / real WHISPER_API_LIMIT_BYTES\<rceil>) = 1
   \<and> run_slices (transcribir_wav_con_chunking_opcional wav_empty True) = []
   \<and> length (run_slices (transcribir_wav_con_chunking_opcional wav_empty True)) \<noteq>
       max 1 (nat \<lceil>real (st_size wav_empty) / real WHISPER_API_LIMIT_BYTES\<rceil>)
   \<and> run_calls (transcribir_wav_con_chunking_opcional wav_empty True) = []
   \<and> result (transcribir_wav_con_chunking_opcional wav_empty True) = None"
  by (simp add: run_wav_empty) (simp add: wav_empty_def WHISPER_API_LIMIT_BYTES_def)

section \<open>Failure of a chunked unit\<close>

text \<open>
  Claim C4, as amended. In the chunked path, when no interval's dispatch succeeds (for
  every interval the export of the chunk fails, or the call of the primitive returns
  nothing, or it returns an empty dictionary), the transcriber returns no result: the
  unit fails. This holds as well when the audio does not load or the chunk length is 0,
  where no interval is attempted. A dispatch that succeeds counts whatever its text:
  when the intervals are attempted and one dispatch succeeds, the unit has a result.
\<close>

theorem no_successful_chunk_fails:
  assumes "forzar \<or> WHISPER_API_LIMIT_BYTES < st_size w"
  shows "((\<forall>i<num_chunks_of (st_size w).
            \<not> export_chunk w i \<or> api_chunk w i = None
            \<or> (\<exists>r. api_chunk w i = Some r \<and> \<not> truthy r))
          \<longrightarrow> result (transcribir_wav_con_chunking_opcional w forzar) = None)
       \<and> (\<forall>dur. from_wav w = Some dur \<and> num_chunks_of (st_size w) \<le> dur
             \<and> (\<exists>i<num_chunks_of (st_size w).
                   export_chunk w i \<and> (\<exists>r. api_chunk w i = Some r \<and> truthy r))
          \<longrightarrow> result (transcribir_wav_con_chunking_opcional w forzar) \<noteq> None)"
proof (intro conjI impI allI)
  assume none: "\<forall>i<num_chunks_of (st_size w).
            \<not> export_chunk w i \<or> api_chunk w i = None
            \<or> (\<exists>r. api_chunk w i = Some r \<and> \<not> truthy r)"
  show "result (transcribir_wav_con_chunking_opcional w forzar) = None"
  proof (cases "\<exists>dur. from_wav w = Some dur \<and> num_chunks_of (st_size w) \<le> dur")
    case True
    then obtain dur where dur: "from_wav w = Some dur" and fit: "num_chunks_of (st_size w) \<le> dur"
      by blast
    have "\<forall>i\<in>set [0 ..< num_chunks_of (st_size w)]. chunk_success w i = None"
      using none by (simp add: chunk_success_None_iff)
    then have "List.map_filter (chunk_success w) [0 ..< num_chunks_of (st_size w)] = []"
      by (rule map_filter_all_None)
    then have "successes (run_calls (transcribir_wav_con_chunking_opcional w forzar)) = []"
      using chunked_result(1) [OF assms dur fit] by simp
    then show ?thesis
      by (rule chunked_result(2) [OF assms dur fit])
  next
    case False
    then have "from_wav w = None \<or> (\<exists>dur. from_wav w = Some dur \<and> dur < num_chunks_of (st_size w))"
      by (cases "from_wav w") auto
    then show ?thesis
      using not_chunked_no_calls [OF assms] by simp
  qed
next
  fix dur
  assume some: "from_wav w = Some dur \<and> num_chunks_of (st_size w) \<le> dur
             \<and> (\<exists>i<num_chunks_of (st_size w).
                   export_chunk w i \<and> (\<exists>r. api_chunk w i = Some r \<and> truthy r))"
  then have dur: "from_wav w = Some dur" and fit: "num_chunks_of (st_size w) \<le> dur"
    by simp_all
  from some obtain i where i: "i \<in> set [0 ..< num_chunks_of (st_size w)]"
      and ok: "chunk_success w i \<noteq> None"
    by (auto simp: chunk_success_None_iff)
  have "List.map_filter (chunk_success w) [0 ..< num_chunks_of (st_size w)] \<noteq> []"
    using i ok by (rule map_filter_nonempty)
  then have "successes (run_calls (transcribir_wav_con_chunking_opcional w forzar)) \<noteq> []"
    using chunked_result(1) [OF assms dur fit] by (metis list.map_disc_iff)
  then show "result (transcribir_wav_con_chunking_opcional w forzar) \<noteq> None"
    using chunked_result(3) [OF assms dur fit] by auto
qed

theorem no_successful_chunk_fails_witness:
  "WHISPER_API_LIMIT_BYTES < st_size wav_all_fail
   \<and> num_chunks_of (st_size wav_all_fail) = 2
   \<and> api_chunk wav_all_fail 0 = None \<and> api_chunk wav_all_fail 1 = None
   \<and> result (transcribir_wav_con_chunking_opcional wav_all_fail False) = None"
proof -
  have size: "WHISPER_API_LIMIT_BYTES < st_size wav_all_fail"
    by (simp add: wav_all_fail_def WHISPER_API_LIMIT_BYTES_def)
  have n: "num_chunks_of (st_size wav_all_fail) = 2"
    by (simp add: wav_all_fail_def num_chunks_of_def WHISPER_API_LIMIT_BYTES_def)
  have none: "\<forall>i<num_chunks_of (st_size wav_all_fail).
           \<not> export_chunk wav_all_fail i \<or> api_chunk wav_all_fail i = None
           \<or> (\<exists>r. api_chunk wav_all_fail i = Some r \<and> \<not> truthy r)"
    by (simp add: wav_all_fail_def)
  have "result (transcribir_wav_con_chunking_opcional wav_all_fail False) = None"
    using no_successful_chunk_fails [of False wav_all_fail, OF disjI2 [OF size]] none by blast
  moreover have "api_chunk wav_all_fail 0 = None" "api_chunk wav_all_fail 1 = None"
    by (simp_all add: wav_all_fail_def)
  ultimately show ?thesis
    using size n by (intro conjI)
qed

text \<open>
  The claim as stated fails on a silent unit: its only interval is dispatched, the
  primitive answers with the empty text, so no interval produced any text, and the
  transcriber returns a result, whose text is empty, and not a failure.
\<close>

theorem no_text_fails_counterexample:
  "api_chunk wav_silent 0 = Some \<lparr>d_text = Some [], d_language = Some (str ''es''),
                                   d_segments = Some [], d_extra = []\<rparr>
   \<and> num_chunks_of (st_size wav_silent) = 1
   \<and> map get_text (successes (run_calls (transcribir_wav_con_chunking_opcional wav_silent True))) = [[]]
   \<and> result (transcribir_wav_con_chunking_opcional wav_silent True) =
       Some \<lparr>d_text = Some [], d_language = Some (str ''es''), d_segments = Some [], d_extra = []\<rparr>
   \<and> result (transcribir_wav_con_chunking_opcional wav_silent True) \<noteq> None"
  by (simp add: run_wav_silent truthy_def get_text_def)
    (simp add: wav_silent_def num_chunks_of_def WHISPER_API_LIMIT_BYTES_def)

section \<open>The text of a chunked unit\<close>

text \<open>
  Claim C5, as amended. In the chunked path, for every sequence of per-chunk outcomes with
  at least one success, the text of the result is the space-joined concatenation, in
  order, of the texts of exactly the chunks whose dispatch succeeded (an answer without
  text counting as the empty text), with leading and trailing whitespace stripped.
\<close>

theorem chunked_text_stripped_join:
  assumes "forzar \<or> WHISPER_API_LIMIT_BYTES < st_size w"
    and "successes (run_calls (transcribir_wav_con_chunking_opcional w forzar)) \<noteq> []"
  shows "\<exists>d. result (transcribir_wav_con_chunking_opcional w forzar) = Some d
           \<and> d_text d = Some (strip (space_joined (map get_text
                 (successes (run_calls (transcribir_wav_con_chunking_opcional w forzar))))))
           \<and> map get_text (successes (run_calls (transcribir_wav_con_chunking_opcional w forzar))) =
               map get_text (List.map_filter (chunk_success w) [0 ..< num_chunks_of (st_size w)])"
proof (cases "\<exists>dur. from_wav w = Some dur \<and> num_chunks_of (st_size w) \<le> dur")
  case True
  then obtain dur where dur: "from_wav w = Some dur" and fit: "num_chunks_of (st_size w) \<le> dur"
    by blast
  show ?thesis
    using chunked_result(3) [OF assms(1) dur fit assms(2)] chunked_result(1) [OF assms(1) dur fit]
    by blast
next
  case False
  then have "from_wav w = None \<or> (\<exists>dur. from_wav w = Some dur \<and> dur < num_chunks_of (st_size w))"
    by (cases "from_wav w") auto
  then have "run_calls (transcribir_wav_con_chunking_opcional w forzar) = []"
    using not_chunked_no_calls [OF assms(1)] by simp
  then show ?thesis using assms(2) by simp
qed

theorem chunked_text_stripped_join_witness:
  "WHISPER_API_LIMIT_BYTES < st_size wav_two_chunks
   \<and> map get_text (successes (run_calls (transcribir_wav_con_chunking_opcional wav_two_chunks False))) =
       [[], str ''hola'']
   \<and> map_option d_text (result (transcribir_wav_con_chunking_opcional wav_two_chunks False)) =
       Some (Some (strip (space_joined [[], str ''hola''])))
   \<and> strip (space_joined [[], str ''hola'']) = str ''hola''"
proof -
  have size: "WHISPER_API_LIMIT_BYTES < st_size wav_two_chunks"
    by (simp add: wav_two_chunks_def WHISPER_API_LIMIT_BYTES_def)
  have ok: "successes (run_calls (transcribir_wav_con_chunking_opcional wav_two_chunks False)) \<noteq> []"
    by (simp add: run_two_chunks truthy_def)
  have texts: "map get_text (successes (run_calls (transcribir_wav_con_chunking_opcional wav_two_chunks False))) =
       [[], str ''hola'']"
    by (simp add: run_two_chunks truthy_def get_text_def)
  have stripped: "strip (space_joined [[], str ''hola'']) = str ''hola''"
    by (simp add: strip_def isspace_def str_def)
  have "\<exists>d. result (transcribir_wav_con_chunking_opcional wav_two_chunks False) = Some d
          \<and> d_text d = Some (strip (space_joined [[], str ''hola'']))"
    using chunked_text_stripped_join [of False wav_two_chunks, OF disjI2 [OF size] ok]
    unfolding texts by blast
  then have "map_option d_text (result (transcribir_wav_con_chunking_opcional wav_two_chunks False)) =
       Some (Some (strip (space_joined [[], str ''hola''])))"
    by auto
  with size texts stripped show ?thesis
    by (intro conjI)
qed

text \<open>
  The claim as stated fails where the joined text starts or ends with whitespace: with a
  silent first chunk (the empty text) and a second chunk \<^verbatim>\<open>hola\<close>, the space-joined
  concatenation starts with a space, and the text of the result does not.
\<close>

theorem chunked_text_join_counterexample:
  "WHISPER_API_LIMIT_BYTES < st_size wav_two_chunks
   \<and> map get_text (successes (run_calls (transcribir_wav_con_chunking_opcional wav_two_chunks False))) =
       [[], str ''hola'']
   \<and> space_joined [[], str ''hola''] = str '' hola''
   \<and> map_option d_text (result (transcribir_wav_con_chunking_opcional wav_two_chunks False)) =
       Some (Some (str ''hola''))
   \<and> map_option d_text (result (transcribir_wav_con_chunking_opcional wav_two_chunks False)) \<noteq>
       Some (Some (space_joined (map get_text
         (successes (run_calls (transcribir_wav_con_chunking_opcional wav_two_chunks False))))))"
  by (simp add: run_two_chunks truthy_def get_text_def)
    (simp add: str_def wav_two_chunks_def WHISPER_API_LIMIT_BYTES_def)

section \<open>Re-basing of segment timestamps\<close>

text \<open>
  Claim C3. In the chunked path, for every chunk \<open>i\<close> whose dispatch succeeds (the call
  for the slice starting at \<open>s\<close> milliseconds returns a non-empty dictionary \<open>d\<close>), \<open>s\<close> is
  the chunk's start offset \<open>i * chunk_duration_ms\<close>, the unit has a combined result, and
  for each segment the service answered for that chunk: the segment object of the
  chunk's own result still holds what the service answered, and the combined result
  holds another object, equal to that segment with \<open>s / 1000\<close> added to its start and to
  its end (an absent one read as 0) and nothing else changed.
\<close>

theorem rebased_segments_are_copies:
  assumes "(Chunk_wav i s e, Some d) \<in> set (run_calls (transcribir_wav_con_chunking_opcional w forzar))"
    and "truthy d"
  shows "\<exists>r as res combined dur.
           api_chunk w i = Some r
         \<and> from_wav w = Some dur \<and> s = i * (dur div num_chunks_of (st_size w))
         \<and> d_segments d = map_option (\<lambda>_. as) (d_segments r)
         \<and> length as = length (segments_of r)
         \<and> result (transcribir_wav_con_chunking_opcional w forzar) = Some res
         \<and> d_segments res = Some combined
         \<and> (\<forall>j<length (segments_of r).
               run_objs (transcribir_wav_con_chunking_opcional w forzar) ! (as ! j) = segments_of r ! j
             \<and> (\<exists>b\<in>set combined.
                   b \<notin> set as
                 \<and> run_objs (transcribir_wav_con_chunking_opcional w forzar) ! b =
                     (segments_of r ! j)
                       \<lparr>seg_start := Some (real s / 1000 + get_start (segments_of r ! j)),
                        seg_end := Some (real s / 1000 + get_end (segments_of r ! j))\<rparr>))"
proof -
  define R where "R = transcribir_wav_con_chunking_opcional w forzar"
  have mem: "(Chunk_wav i s e, Some d) \<in> set (run_calls R)"
    using assms(1) by (simp add: R_def)
  have chunked: "forzar \<or> WHISPER_API_LIMIT_BYTES < st_size w"
  proof (rule ccontr)
    assume "\<not> (forzar \<or> WHISPER_API_LIMIT_BYTES < st_size w)"
    then obtain r where "run_calls R = [(Whole_wav, r)]"
      using run_direct_calls [of forzar w] by (auto simp: R_def)
    with mem show False by simp
  qed
  have "\<exists>dur. from_wav w = Some dur \<and> num_chunks_of (st_size w) \<le> dur"
  proof (rule ccontr)
    assume "\<not> (\<exists>dur. from_wav w = Some dur \<and> num_chunks_of (st_size w) \<le> dur)"
    then have "from_wav w = None \<or> (\<exists>dur. from_wav w = Some dur \<and> dur < num_chunks_of (st_size w))"
      by (cases "from_wav w") auto
    then have "run_calls R = []"
      using not_chunked_no_calls [OF chunked] by (simp add: R_def)
    with mem show False by simp
  qed
  then obtain dur where dur: "from_wav w = Some dur" and fit: "num_chunks_of (st_size w) \<le> dur"
    by blast
  define n where "n = num_chunks_of (st_size w)"
  define st where "st = chunk_loop w n (dur div n) dur n"
  have run: "R =
      (if all_text st = [] then
         \<lparr>result = None, run_objs = objs st, run_calls = calls st, run_slices = slices st\<rparr>
       else
         \<lparr>result = Some \<lparr>d_text = Some (strip (all_text st)),
                          d_language = Some (last_successful_lang st),
                          d_segments = Some (all_segments st), d_extra = []\<rparr>,
          run_objs = objs st, run_calls = calls st, run_slices = slices st\<rparr>)"
    using run_chunked [OF chunked dur fit] by (simp add: n_def st_def Let_def R_def)
  have calls: "run_calls R = calls st" and store: "run_objs R = objs st"
    unfolding run by simp_all
  have "successes (run_calls R) \<noteq> []"
    using successes_member [OF mem assms(2)] by auto
  then obtain res where res: "result R = Some res"
    using chunked_result(3) [OF chunked dur fit] by (auto simp: R_def)
  then have comb: "d_segments res = Some (all_segments st)"
    unfolding run by (auto split: if_splits)
  have "calls_rebased w (dur div n) st"
    unfolding st_def by (rule calls_rebased_loop)
  then have s: "s = i * (dur div n)" and cr: "call_rebased w (objs st) (all_segments st) i s d"
    using mem assms(2) unfolding calls_rebased_def calls by blast+
  from cr obtain r as where r: "api_chunk w i = Some r"
    and segs: "d_segments d = map_option (\<lambda>_. as) (d_segments r)"
    and len: "length as = length (segments_of r)"
    and cells: "\<forall>j<length as.
              as ! j < length (objs st) \<and> objs st ! (as ! j) = segments_of r ! j
              \<and> (\<exists>b\<in>set (all_segments st).
                    b < length (objs st) \<and> b \<notin> set as
                    \<and> objs st ! b = rebased (real s / 1000) (segments_of r ! j))"
    unfolding call_rebased_def by blast
  have final: "\<forall>j<length (segments_of r).
               run_objs R ! (as ! j) = segments_of r ! j
             \<and> (\<exists>b\<in>set (all_segments st).
                   b \<notin> set as
                 \<and> run_objs R ! b =
                     (segments_of r ! j)
                       \<lparr>seg_start := Some (real s / 1000 + get_start (segments_of r ! j)),
                        seg_end := Some (real s / 1000 + get_end (segments_of r ! j))\<rparr>)"
    using cells unfolding store len rebased_def by blast
  show ?thesis
    unfolding R_def [symmetric]
    using r dur s [unfolded n_def] segs len res comb final by blast
qed

theorem rebased_segments_are_copies_witness:
  "(Chunk_wav 1 300000 600001,
      Some \<lparr>d_text = Some (str ''hola''), d_language = Some (str ''es''),
            d_segments = Some [0], d_extra = []\<rparr>)
     \<in> set (run_calls (transcribir_wav_con_chunking_opcional wav_two_chunks False))
   \<and> truthy \<lparr>d_text = Some (str ''hola''), d_language = Some (str ''es''),
            d_segments = Some [0::nat], d_extra = []\<rparr>
   \<and> map_option d_segments (result (transcribir_wav_con_chunking_opcional wav_two_chunks False)) =
       Some (Some [1])
   \<and> run_objs (transcribir_wav_con_chunking_opcional wav_two_chunks False) ! 0 =
       \<lparr>seg_start = Some 2, seg_end = Some 4.5, seg_text = str ''hola''\<rparr>
   \<and> run_objs (transcribir_wav_con_chunking_opcional wav_two_chunks False) ! 1 =
       \<lparr>seg_start = Some 302, seg_end = Some 304.5, seg_text = str ''hola''\<rparr>"
proof -
  have mem: "(Chunk_wav 1 300000 600001,
      Some \<lparr>d_text = Some (str ''hola''), d_language = Some (str ''es''),
            d_segments = Some [0], d_extra = []\<rparr>)
     \<in> set (run_calls (transcribir_wav_con_chunking_opcional wav_two_chunks False))"
    by (simp add: run_two_chunks)
  have t: "truthy \<lparr>d_text = Some (str ''hola''), d_language = Some (str ''es''),
            d_segments = Some [0::nat], d_extra = []\<rparr>"
    by (simp add: truthy_def)
  show ?thesis
    using rebased_segments_are_copies [OF mem t] mem t
    by (simp add: run_two_chunks)
qed

section \<open>Short turns\<close>

text \<open>
  Claim C6, as amended. A diarized turn is discarded before extraction when its duration
  as the loop measures it is below 100: the difference \<^verbatim>\<open>int(end_s * 1000) - int(start_s * 1000)\<close>
  of the end and the start in whole milliseconds, each the product of a double with 1000,
  rounded to a double and then truncated. For such a turn the loop body leaves the state
  as it was, so it adds no line, and in the log of the file's run there is no extraction
  and no call of the transcriber for that turn.
\<close>

theorem short_turn_discarded:
  assumes "diarizar_audio env = Some turns" and "i < length turns"
    and "duracion_ms (turns ! i) < 100"
  shows "procesar_turno env st (i, turns ! i) = st
       \<and> linea_turno env i (turns ! i) = []
       \<and> (\<forall>a b. Extraer i a b \<notin> set (file_events (procesar_archivo env dir_salida ruta_audio)))
       \<and> (\<forall>f. Transcribir (Turn_wav i) f \<notin> set (file_events (procesar_archivo env dir_salida ruta_audio)))"
proof -
  have none: "ev \<notin> set (file_events (procesar_archivo env dir_salida ruta_audio))"
    if ev: "(\<exists>a b. ev = Extraer i a b) \<or> (\<exists>f. ev = Transcribir (Turn_wav i) f)" for ev
  proof (cases "is_file env \<and> convertir_a_wav env \<and> from_wav_ok env")
    case False
    then show ?thesis
      by (simp add: procesar_archivo_skipped skipped_def)
  next
    case True
    show ?thesis
    proof
      assume "ev \<in> set (file_events (procesar_archivo env dir_salida ruta_audio))"
      then have "ev \<in> set (events (foldl (procesar_turno env)
                   \<lparr>texto_diarizado_final = [], events = []\<rparr> (enumerate 0 turns)))"
        using True assms(1) by (simp add: procesar_archivo_diarized [of env turns] Let_def)
      then have "ev \<in> set (events \<lparr>texto_diarizado_final = [], events = []\<rparr>) \<or>
         (\<exists>(j, t)\<in>set (enumerate 0 turns). \<not> duracion_ms t < 100 \<and>
            (ev = Extraer j (py_int (times_int (turn_start t) 1000)) (py_int (times_int (turn_end t) 1000))
             \<or> ev = Transcribir (Turn_wav j) False))"
        by (rule events_turnos)
      then obtain j t where jt: "(j, t) \<in> set (enumerate 0 turns)"
        and long: "\<not> duracion_ms t < 100"
        and is_ev: "ev = Extraer j (py_int (times_int (turn_start t) 1000)) (py_int (times_int (turn_end t) 1000))
             \<or> ev = Transcribir (Turn_wav j) False"
        by auto
      from is_ev ev have "j = i" by auto
      with jt have "t = turns ! i" by (simp add: in_set_enumerate_eq)
      with long assms(3) show False by simp
    qed
  qed
  have "procesar_turno env st (i, turns ! i) = st"
    using assms(3) by (rule procesar_turno_skip)
  moreover have "linea_turno env i (turns ! i) = []"
    using assms(3) by (simp add: linea_turno_def)
  ultimately show ?thesis
    using none by blast
qed

theorem short_turn_discarded_witness:
  "diarizar_audio env_diarized = Some three_turns
   \<and> duracion_ms (three_turns ! 1) = 50
   \<and> file_events (procesar_archivo env_diarized dir_text (str ''reunion.mp3'')) =
       [Extraer 0 0 5000, Transcribir (Turn_wav 0) False,
        Extraer 2 6000 40000, Transcribir (Turn_wav 2) False]
   \<and> texto_final (procesar_archivo env_diarized dir_text (str ''reunion.mp3'')) =
       str ''SPEAKER_00:   hola '' @ [10]"
proof -
  have d: "diarizar_audio env_diarized = Some three_turns"
    by (simp add: env_diarized_def)
  have short: "duracion_ms (three_turns ! 1) < 100" and len: "1 < length three_turns"
    by (simp_all add: duracion_three_turns) (simp add: three_turns_def)
  have others: "is_file env_diarized" "convertir_a_wav env_diarized" "from_wav_ok env_diarized"
    by (simp_all add: env_diarized_def)
  have steps: "events (foldl (procesar_turno env_diarized)
                   \<lparr>texto_diarizado_final = [], events = []\<rparr> (enumerate 0 three_turns)) =
       [Extraer 0 0 5000, Transcribir (Turn_wav 0) False,
        Extraer 2 6000 40000, Transcribir (Turn_wav 2) False]"
    unfolding enumerate_three_turns
    by (simp add: procesar_turno_def Let_def env_diarized_def three_turns_def ms_three_turns)
  have ev: "file_events (procesar_archivo env_diarized dir_text (str ''reunion.mp3'')) =
       [Extraer 0 0 5000, Transcribir (Turn_wav 0) False,
        Extraer 2 6000 40000, Transcribir (Turn_wav 2) False]"
    using others d steps
    by (simp add: procesar_archivo_diarized [of env_diarized three_turns] Let_def del: foldl.simps)
  show ?thesis
    using short_turn_discarded [OF d len short] d ev texto_env_diarized
    by (simp add: duracion_three_turns)
qed

text \<open>
  The claim as stated fails on a turn shorter than 100 ms whose measure is 100: the turn
  from 0.0009 s to 0.1 s lasts 99.1 ms; its start is truncated to 0 ms and its end to
  100 ms, so the loop extracts the slice from 0 to 100, calls the transcriber for it and
  writes the line of the turn.
\<close>

theorem short_turn_counterexample:
  "diarizar_audio env_99ms = Some [turn_99ms]
   \<and> (value_of (turn_end turn_99ms) - value_of (turn_start turn_99ms)) * 1000 < 100
   \<and> duracion_ms turn_99ms = 100
   \<and> file_events (procesar_archivo env_99ms dir_text (str ''reunion.mp3'')) =
       [Extraer 0 0 100, Transcribir (Turn_wav 0) False]
   \<and> texto_final (procesar_archivo env_99ms dir_text (str ''reunion.mp3'')) =
       str ''SPEAKER_00: hola'' @ [10]"
  using seconds_turn_99ms duracion_turn_99ms run_env_99ms [of dir_text "str ''reunion.mp3''"]
  by (simp add: env_99ms_def)

section \<open>A diarized file without lines\<close>

text \<open>
  Claim C7. When diarization produced turns and no turn yields a line (each turn is
  skipped as too short, or cannot be sliced or exported, or its transcription fails or has
  no text), the final transcript is empty, no output file is written for the file, and in
  particular the placeholder line of the no-diarization path is not emitted.
\<close>

theorem all_turns_fail_no_output:
  assumes "diarizar_audio env = Some turns"
    and "\<forall>i<length turns.
           duracion_ms (turns ! i) < 100 \<or> \<not> slice_ok (turnos env i) \<or> \<not> export_ok (turnos env i)
           \<or> texto_de (result (transcribir_wav_con_chunking_opcional (turn_wav (turnos env i)) False)) = []"
  shows "texto_final (procesar_archivo env dir_salida ruta_audio) = []
       \<and> written (procesar_archivo env dir_salida ruta_audio) = []
       \<and> texto_final (procesar_archivo env dir_salida ruta_audio) \<noteq> error_placeholder"
proof (cases "is_file env \<and> convertir_a_wav env \<and> from_wav_ok env")
  case False
  then show ?thesis
    using error_placeholder_nonempty by (simp add: procesar_archivo_skipped skipped_def)
next
  case True
  have "\<forall>l\<in>set (map (\<lambda>(i, t). linea_turno env i t) (enumerate 0 turns)). l = []"
    using assms(2) by (auto simp: in_set_enumerate_eq linea_turno_def)
  then have "concat (map (\<lambda>(i, t). linea_turno env i t) (enumerate 0 turns)) = []"
    by (rule concat_all_empty)
  then have "texto_diarizado_final (foldl (procesar_turno env)
               \<lparr>texto_diarizado_final = [], events = []\<rparr> (enumerate 0 turns)) = []"
    by (simp add: texto_turnos)
  then show ?thesis
    using True assms(1) error_placeholder_nonempty
    by (simp add: procesar_archivo_diarized [of env turns] Let_def del: foldl.simps)
qed

theorem all_turns_fail_no_output_witness:
  "diarizar_audio env_no_lines = Some three_turns
   \<and> texto_final (procesar_archivo env_no_lines dir_text (str ''reunion.mp3'')) = []
   \<and> written (procesar_archivo env_no_lines dir_text (str ''reunion.mp3'')) = []"
proof -
  have d: "diarizar_audio env_no_lines = Some three_turns"
    by (simp add: env_no_lines_def)
  have "texto_de (result (transcribir_wav_con_chunking_opcional
          (turn_wav (turnos env_no_lines i)) False)) = []" for i
    by (simp add: env_no_lines_def texto_wav_small_error texto_wav_small_silent)
  then have fail: "\<forall>i<length three_turns.
           duracion_ms (three_turns ! i) < 100 \<or> \<not> slice_ok (turnos env_no_lines i)
           \<or> \<not> export_ok (turnos env_no_lines i)
           \<or> texto_de (result (transcribir_wav_con_chunking_opcional
                 (turn_wav (turnos env_no_lines i)) False)) = []"
    by simp
  show ?thesis
    using all_turns_fail_no_output [OF d fail, of dir_text "str ''reunion.mp3''"] d
    by simp
qed

section \<open>The lines of a diarized transcript\<close>

text \<open>
  Claim C10. On the diarized path the final transcript is a concatenation of lines, each
  of them \<open>speaker: text\<close> followed by a newline, for a turn whose transcription returned
  a result with a non-empty text; a turn whose transcription returns no result, no text or
  the empty text adds nothing to the transcript.
\<close>

theorem diarized_lines_have_text:
  assumes "diarizar_audio env = Some turns"
  shows "(\<exists>ls. texto_final (procesar_archivo env dir_salida ruta_audio) = concat ls
            \<and> (\<forall>l\<in>set ls. \<exists>i<length turns. \<exists>d tx.
                  result (transcribir_wav_con_chunking_opcional (turn_wav (turnos env i)) False) = Some d
                  \<and> d_text d = Some tx \<and> tx \<noteq> []
                  \<and> l = speaker (turns ! i) @ str '': '' @ tx @ [10]))
       \<and> (\<forall>st i t.
             result (transcribir_wav_con_chunking_opcional (turn_wav (turnos env i)) False) = None
             \<or> (\<exists>d. result (transcribir_wav_con_chunking_opcional (turn_wav (turnos env i)) False) = Some d
                    \<and> (d_text d = None \<or> d_text d = Some []))
           \<longrightarrow> texto_diarizado_final (procesar_turno env st (i, t)) = texto_diarizado_final st)"
proof (intro conjI allI impI)
  define ls where "ls = filter (\<lambda>l. l \<noteq> []) (map (\<lambda>(i, t). linea_turno env i t) (enumerate 0 turns))"
  have form: "\<exists>i<length turns. \<exists>d tx.
                  result (transcribir_wav_con_chunking_opcional (turn_wav (turnos env i)) False) = Some d
                  \<and> d_text d = Some tx \<and> tx \<noteq> []
                  \<and> l = speaker (turns ! i) @ str '': '' @ tx @ [10]"
    if "l \<in> set ls" for l
  proof -
    from that obtain i t where it: "(i, t) \<in> set (enumerate 0 turns)"
      and l: "l = linea_turno env i t" and ne: "l \<noteq> []"
      by (auto simp: ls_def)
    from it have i: "i < length turns" and t: "t = turns ! i"
      by (simp_all add: in_set_enumerate_eq)
    from l ne have tx: "texto_de (result (transcribir_wav_con_chunking_opcional
                          (turn_wav (turnos env i)) False)) \<noteq> []"
      and line: "l = speaker t @ str '': ''
             @ texto_de (result (transcribir_wav_con_chunking_opcional (turn_wav (turnos env i)) False))
             @ [10]"
      by (auto simp: linea_turno_def split: if_splits)
    from tx obtain d x where "result (transcribir_wav_con_chunking_opcional
                          (turn_wav (turnos env i)) False) = Some d"
      and "d_text d = Some x" and "x \<noteq> []"
      and "texto_de (result (transcribir_wav_con_chunking_opcional
                          (turn_wav (turnos env i)) False)) = x"
      unfolding texto_de_nonempty_iff by blast
    with i t line show ?thesis by auto
  qed
  show "\<exists>ls. texto_final (procesar_archivo env dir_salida ruta_audio) = concat ls
            \<and> (\<forall>l\<in>set ls. \<exists>i<length turns. \<exists>d tx.
                  result (transcribir_wav_con_chunking_opcional (turn_wav (turnos env i)) False) = Some d
                  \<and> d_text d = Some tx \<and> tx \<noteq> []
                  \<and> l = speaker (turns ! i) @ str '': '' @ tx @ [10])"
  proof (cases "is_file env \<and> convertir_a_wav env \<and> from_wav_ok env")
    case False
    then have "texto_final (procesar_archivo env dir_salida ruta_audio) = concat []"
      by (simp add: procesar_archivo_skipped skipped_def)
    then show ?thesis
      by (intro exI [of _ "[]"]) simp
  next
    case True
    have "concat ls = concat (map (\<lambda>(i, t). linea_turno env i t) (enumerate 0 turns))"
      unfolding ls_def by (rule concat_filter_nonempty)
    with True assms have "texto_final (procesar_archivo env dir_salida ruta_audio) = concat ls"
      by (simp add: procesar_archivo_diarized [of env turns] Let_def texto_turnos
          del: foldl.simps)
    with form show ?thesis
      by blast
  qed
next
  fix st i t
  assume "result (transcribir_wav_con_chunking_opcional (turn_wav (turnos env i)) False) = None
             \<or> (\<exists>d. result (transcribir_wav_con_chunking_opcional (turn_wav (turnos env i)) False) = Some d
                    \<and> (d_text d = None \<or> d_text d = Some []))"
  then have "texto_de (result (transcribir_wav_con_chunking_opcional (turn_wav (turnos env i)) False)) = []"
    by (auto simp: texto_de_def)
  then have "linea_turno env i t = []"
    by (simp add: linea_turno_def)
  then show "texto_diarizado_final (procesar_turno env st (i, t)) = texto_diarizado_final st"
    by (simp add: texto_procesar_turno)
qed

theorem diarized_lines_have_text_witness:
  "diarizar_audio env_diarized = Some three_turns
   \<and> texto_final (procesar_archivo env_diarized dir_text (str ''reunion.mp3'')) =
       str ''SPEAKER_00'' @ str '': '' @ str ''  hola '' @ [10]
   \<and> map_option d_text (result (transcribir_wav_con_chunking_opcional
         (turn_wav (turnos env_diarized 0)) False)) = Some (Some (str ''  hola ''))
   \<and> map_option d_text (result (transcribir_wav_con_chunking_opcional
         (turn_wav (turnos env_diarized 2)) False)) = Some (Some [])"
proof -
  have d: "diarizar_audio env_diarized = Some three_turns"
    by (simp add: env_diarized_def)
  have r0: "map_option d_text (result (transcribir_wav_con_chunking_opcional
         (turn_wav (turnos env_diarized 0)) False)) = Some (Some (str ''  hola ''))"
    by (simp add: env_diarized_def transcribir_wav_con_chunking_opcional_def wav_small_def
        WHISPER_API_LIMIT_BYTES_def transcribir_chunk_whisper_def to_dict_def)
  have r2: "map_option d_text (result (transcribir_wav_con_chunking_opcional
         (turn_wav (turnos env_diarized 2)) False)) = Some (Some [])"
    by (simp add: env_diarized_def transcribir_wav_con_chunking_opcional_def wav_small_silent_def
        WHISPER_API_LIMIT_BYTES_def transcribir_chunk_whisper_def to_dict_def)
  have t: "texto_final (procesar_archivo env_diarized dir_text (str ''reunion.mp3'')) =
       str ''SPEAKER_00'' @ str '': '' @ str ''  hola '' @ [10]"
    unfolding texto_env_diarized by (simp add: str_def)
  show ?thesis
    using diarized_lines_have_text [OF d, of dir_text "str ''reunion.mp3''"] d t r0 r2
    by (intro conjI)
qed

section \<open>The whole-file fallback\<close>

text \<open>
  Claim C8. When diarization is unavailable or fails for a file (the file was converted
  and loaded, and \<^verbatim>\<open>diarizar_audio\<close> returns nothing), the pipeline calls the transcriber
  once, on the full WAV with forced chunking. When that returns a result with a non-empty
  text, the final transcript is the one line \<open>SPEAKER_?: text\<close> with its newline; when it
  returns no result, or a result without text or with the empty text, the final transcript
  is the fixed error placeholder, the one line \<^verbatim>\<open>SPEAKER_?: [Error en transcripcion completa]\<close>
  (the letter after \<^verbatim>\<open>transcripci\<close> is the o with an acute accent, the code point 243) with
  its newline, the code point 10, which is its last character and the only newline. In
  both cases the transcript is not empty and is handed to \<^verbatim>\<open>guardar_transcripcion\<close>, which
  writes one output file with it unless opening or writing the file raises.
\<close>

theorem fallback_writes_one_line:
  assumes "is_file env" and "convertir_a_wav env" and "from_wav_ok env"
    and "diarizar_audio env = None"
  shows "file_events (procesar_archivo env dir_salida ruta_audio) = [Transcribir Full_wav True]
       \<and> (\<forall>d tx. result (transcribir_wav_con_chunking_opcional (ruta_wav env) True) = Some d
                 \<and> d_text d = Some tx \<and> tx \<noteq> []
            \<longrightarrow> texto_final (procesar_archivo env dir_salida ruta_audio) =
                  str ''SPEAKER_?: '' @ tx @ [10])
       \<and> (result (transcribir_wav_con_chunking_opcional (ruta_wav env) True) = None
            \<or> (\<exists>d. result (transcribir_wav_con_chunking_opcional (ruta_wav env) True) = Some d
                   \<and> (d_text d = None \<or> d_text d = Some []))
            \<longrightarrow> texto_final (procesar_archivo env dir_salida ruta_audio) =
                  str ''SPEAKER_?: [Error en transcripci'' @ [243] @ str ''n completa]'' @ [10])
       \<and> texto_final (procesar_archivo env dir_salida ruta_audio) \<noteq> []
       \<and> written (procesar_archivo env dir_salida ruta_audio) =
           guardar_transcripcion (open_ok env) (texto_final (procesar_archivo env dir_salida ruta_audio))
             (joinpath dir_salida (path_stem ruta_audio))
       \<and> (open_ok env \<longrightarrow>
            written (procesar_archivo env dir_salida ruta_audio) =
              [(with_suffix (joinpath dir_salida (path_stem ruta_audio)) (str ''.diarized.txt''),
                encode_latin1_ignore (texto_final (procesar_archivo env dir_salida ruta_audio)))])"
proof -
  define r where "r = result (transcribir_wav_con_chunking_opcional (ruta_wav env) True)"
  define R where "R = procesar_archivo env dir_salida ruta_audio"
  have tf: "texto_final R =
      (if texto_de r \<noteq> [] then str ''SPEAKER_?: '' @ texto_de r @ [10] else error_placeholder)"
    and ev: "file_events R = [Transcribir Full_wav True]"
    using assms
    by (simp_all add: R_def r_def procesar_archivo_fallback Let_def transcribir_sin_hablantes_def)
  have ne: "texto_final R \<noteq> []"
    using error_placeholder_nonempty by (simp add: tf)
  have wr: "written R = guardar_transcripcion (open_ok env) (texto_final R)
             (joinpath dir_salida (path_stem ruta_audio))"
    using assms ne
    by (simp add: R_def procesar_archivo_fallback Let_def)
  have ok: "texto_final R = str ''SPEAKER_?: '' @ tx @ [10]"
    if "r = Some d \<and> d_text d = Some tx \<and> tx \<noteq> []" for d tx
    using that by (simp add: tf texto_de_def)
  have ko: "texto_final R =
              str ''SPEAKER_?: [Error en transcripci'' @ [243] @ str ''n completa]'' @ [10]"
    if "r = None \<or> (\<exists>d. r = Some d \<and> (d_text d = None \<or> d_text d = Some []))"
    using that by (auto simp: tf texto_de_def error_placeholder_def)
  have one: "written R =
              [(with_suffix (joinpath dir_salida (path_stem ruta_audio)) (str ''.diarized.txt''),
                encode_latin1_ignore (texto_final R))]" if "open_ok env"
    using that by (simp add: wr guardar_transcripcion_def)
  show ?thesis
    unfolding R_def [symmetric] r_def [symmetric]
    using ev ok ko ne wr one by blast
qed

theorem fallback_writes_one_line_witness:
  "diarizar_audio env_fallback = None
   \<and> file_events (procesar_archivo env_fallback dir_text (str ''reunion.mp3'')) =
       [Transcribir Full_wav True]
   \<and> texto_final (procesar_archivo env_fallback dir_text (str ''reunion.mp3'')) =
       str ''SPEAKER_?: hola'' @ [10]
   \<and> written (procesar_archivo env_fallback dir_text (str ''reunion.mp3'')) =
       [(Path dir_text (str ''reunion.diarized.txt''),
         encode_latin1_ignore (str ''SPEAKER_?: hola'' @ [10]))]
   \<and> diarizar_audio env_fallback_error = None
   \<and> result (transcribir_wav_con_chunking_opcional (ruta_wav env_fallback_error) True) = None
   \<and> file_events (procesar_archivo env_fallback_error dir_text (str ''reunion.mp3'')) =
       [Transcribir Full_wav True]
   \<and> texto_final (procesar_archivo env_fallback_error dir_text (str ''reunion.mp3'')) =
       str ''SPEAKER_?: [Error en transcripci'' @ [243] @ str ''n completa]'' @ [10]
   \<and> written (procesar_archivo env_fallback_error dir_text (str ''reunion.mp3'')) =
       [(Path dir_text (str ''reunion.diarized.txt''),
         encode_latin1_ignore
           (str ''SPEAKER_?: [Error en transcripci'' @ [243] @ str ''n completa]'' @ [10]))]"
proof -
  have env: "is_file env_fallback" "convertir_a_wav env_fallback" "from_wav_ok env_fallback"
    "diarizar_audio env_fallback = None"
    by (simp_all add: env_fallback_def)
  have err: "is_file env_fallback_error" "convertir_a_wav env_fallback_error"
    "from_wav_ok env_fallback_error" "diarizar_audio env_fallback_error = None"
    by (simp_all add: env_fallback_error_def)
  have none: "result (transcribir_wav_con_chunking_opcional (ruta_wav env_fallback_error) True) = None"
    by (simp add: env_fallback_error_def result_wav_all_fail)
  have w: "written (procesar_archivo env_fallback dir_text (str ''reunion.mp3'')) =
       [(Path dir_text (str ''reunion.diarized.txt''),
         encode_latin1_ignore (str ''SPEAKER_?: hola'' @ [10]))]"
    unfolding written_env_fallback stem_reunion with_suffix_reunion ..
  have we: "written (procesar_archivo env_fallback_error dir_text (str ''reunion.mp3'')) =
       [(Path dir_text (str ''reunion.diarized.txt''),
         encode_latin1_ignore
           (str ''SPEAKER_?: [Error en transcripci'' @ [243] @ str ''n completa]'' @ [10]))]"
    unfolding written_env_fallback_error stem_reunion with_suffix_reunion ..
  show ?thesis
    using fallback_writes_one_line [OF env, of dir_text "str ''reunion.mp3''"] env(4) w
      texto_env_fallback [of dir_text "str ''reunion.mp3''"]
      fallback_writes_one_line [OF err, of dir_text "str ''reunion.mp3''"] err(4) we none
    by (intro conjI) blast+
qed

section \<open>The name of the output file\<close>

text \<open>
  Claim C9 does not hold of the code for an input whose stem contains a dot:
  \<^verbatim>\<open>with_suffix\<close> replaces what follows the last dot of the stem. The transcript of
  \<^verbatim>\<open>talk.v2.mp3\<close>, whose stem is \<^verbatim>\<open>talk.v2\<close>, is written to \<^verbatim>\<open>talk.diarized.txt\<close> and not
  to \<^verbatim>\<open>talk.v2.diarized.txt\<close>, and the transcript of \<^verbatim>\<open>talk.v1.mp3\<close> is written to the same
  file.
\<close>

theorem dotted_stem_output_name:
  "path_stem (str ''talk.v2.mp3'') = str ''talk.v2''
   \<and> texto_final (procesar_archivo env_fallback dir_text (str ''talk.v2.mp3'')) \<noteq> []
   \<and> map fst (written (procesar_archivo env_fallback dir_text (str ''talk.v2.mp3''))) =
       [Path dir_text (str ''talk.diarized.txt'')]
   \<and> Path dir_text (str ''talk.diarized.txt'') \<noteq> Path dir_text (str ''talk.v2'' @ str ''.diarized.txt'')
   \<and> map fst (written (procesar_archivo env_fallback dir_text (str ''talk.v1.mp3''))) =
       [Path dir_text (str ''talk.diarized.txt'')]"
  by (simp add: stem_talk texto_env_fallback written_env_fallback with_suffix_talk)
    (simp add: str_def)

text \<open>
  What holds of the code: a non-empty transcript is handed to \<^verbatim>\<open>guardar_transcripcion\<close>
  once; unless opening or writing raises, one file is written, with the code points of
  the transcript below 256 as its bytes and the others left out; and its name is the
  stem followed by \<^verbatim>\<open>.diarized.txt\<close> when the stem has no suffix of its own.
\<close>

lemma transcript_written_once:
  assumes "texto_final (procesar_archivo env dir_salida ruta_audio) \<noteq> []" and "open_ok env"
  shows "written (procesar_archivo env dir_salida ruta_audio) =
           [(with_suffix (Path dir_salida (path_stem ruta_audio)) (str ''.diarized.txt''),
             map char_of (filter (\<lambda>c. c < 256) (texto_final (procesar_archivo env dir_salida ruta_audio))))]"
    and "path_suffix (path_stem ruta_audio) = [] \<Longrightarrow>
         map fst (written (procesar_archivo env dir_salida ruta_audio)) =
           [Path dir_salida (path_stem ruta_audio @ str ''.diarized.txt'')]"
proof -
  have run: "is_file env \<and> convertir_a_wav env \<and> from_wav_ok env"
    using assms(1) by (auto simp: procesar_archivo_def skipped_def Let_def split: if_splits)
  show w: "written (procesar_archivo env dir_salida ruta_audio) =
           [(with_suffix (Path dir_salida (path_stem ruta_audio)) (str ''.diarized.txt''),
             map char_of (filter (\<lambda>c. c < 256) (texto_final (procesar_archivo env dir_salida ruta_audio))))]"
    using assms run
    by (simp add: procesar_archivo_def Let_def guardar_transcripcion_def joinpath_def
        encode_latin1_ignore_def)
  show "map fst (written (procesar_archivo env dir_salida ruta_audio)) =
           [Path dir_salida (path_stem ruta_audio @ str ''.diarized.txt'')]"
    if "path_suffix (path_stem ruta_audio) = []"
    using that by (simp add: w with_suffix_def)
qed

lemma encode_drops_beyond_latin1:
  "encode_latin1_ignore [104, 8364, 111, 108, 97] = encode_latin1_ignore [104, 111, 108, 97]"
  by (simp add: encode_latin1_ignore_def)

end
